theory Spec2Isabelle
  imports Main
begin

section \<open>Byte strings and the library functions the proxy calls\<close>

text \<open>
  A Go \<^verbatim>\<open>string\<close> is a sequence of bytes; it is modelled as \<^typ>\<open>string\<close>, a list of
  8-bit characters. The functions of this section are not part of the proxy: they are
  the functions of Go's standard library that \<^verbatim>\<open>main.go\<close> calls, modelled from
  their documented behaviour, under the names they have in Go.
\<close>

subsection \<open>strings.HasPrefix and strings.SplitN\<close>

definition HasPrefix :: "string \<Rightarrow> string \<Rightarrow> bool" where
  "HasPrefix s pre = (length pre \<le> length s \<and> take (length pre) s = pre)"

text \<open>
  \<^verbatim>\<open>strings.Index\<close> with the cut made: the text before and the text after the first
  occurrence of a non-empty separator, if there is one.
\<close>

fun cut_first :: "string \<Rightarrow> string \<Rightarrow> (string \<times> string) option" where
  "cut_first sep [] = None"
| "cut_first sep (c # cs) =
     (if HasPrefix (c # cs) sep then Some ([], drop (length sep) (c # cs))
      else (case cut_first sep cs of
              None \<Rightarrow> None
            | Some (a, b) \<Rightarrow> Some (c # a, b)))"

text \<open>
  \<^verbatim>\<open>strings.SplitN(s, sep, n)\<close> for a non-empty separator and \<open>n \<ge> 0\<close>: no
  substrings for \<open>n = 0\<close>, otherwise at most \<open>n\<close> substrings, the last one being the
  unsplit remainder.
\<close>

fun SplitN :: "string \<Rightarrow> string \<Rightarrow> nat \<Rightarrow> string list" where
  "SplitN s sep 0 = []"
| "SplitN s sep (Suc 0) = [s]"
| "SplitN s sep (Suc (Suc n)) =
     (case cut_first sep s of
        None \<Rightarrow> [s]
      | Some (a, b) \<Rightarrow> a # SplitN b sep (Suc n))"

subsection \<open>base64.StdEncoding.DecodeString\<close>

text \<open>
  The standard alphabet: \<open>A\<close>--\<open>Z\<close>, \<open>a\<close>--\<open>z\<close>, \<open>0\<close>--\<open>9\<close>, \<open>+\<close>, \<open>/\<close> stand for
  the values 0 to 63. Any other byte is outside the alphabet.
\<close>

definition decodeMap :: "char \<Rightarrow> int option" where
  "decodeMap c =
     (let n = (of_char c :: int) in
      if 65 \<le> n \<and> n \<le> 90 then Some (n - 65)
      else if 97 \<le> n \<and> n \<le> 122 then Some (n - 71)
      else if 48 \<le> n \<and> n \<le> 57 then Some (n + 4)
      else if n = 43 then Some 62
      else if n = 47 then Some 63
      else None)"

text \<open>Four 6-bit values packed into 24 bits and cut into three bytes.\<close>

definition quantum_bytes :: "int \<Rightarrow> int \<Rightarrow> int \<Rightarrow> int \<Rightarrow> string" where
  "quantum_bytes x y z w =
     (let val = x * 262144 + y * 4096 + z * 64 + w in
      [char_of (val div 65536), char_of (val div 256), char_of val])"

definition padChar :: char where
  "padChar = CHR ''=''"

text \<open>
  The decoder reads quanta of four characters. Only the last quantum may be padded
  (\<open>xx==\<close> gives one byte, \<open>xxx=\<close> gives two); the padding is required, nothing may
  follow it, and the unused low bits of a padded quantum are not checked (the standard
  encoding is not strict). Every other shape is a \<^verbatim>\<open>CorruptInputError\<close>, here \<open>None\<close>.
\<close>

fun decode_quanta :: "string \<Rightarrow> string option" where
  "decode_quanta [] = Some []"
| "decode_quanta (a # b # c # d # rest) =
     (case (decodeMap a, decodeMap b) of
        (Some x, Some y) \<Rightarrow>
          (case decodeMap c of
             Some z \<Rightarrow>
               (case decodeMap d of
                  Some w \<Rightarrow>
                    (case decode_quanta rest of
                       None \<Rightarrow> None
                     | Some t \<Rightarrow> Some (quantum_bytes x y z w @ t))
                | None \<Rightarrow>
                    if d = padChar \<and> rest = [] then Some (take 2 (quantum_bytes x y z 0))
                    else None)
           | None \<Rightarrow>
               if c = padChar \<and> d = padChar \<and> rest = []
               then Some (take 1 (quantum_bytes x y 0 0))
               else None)
      | _ \<Rightarrow> None)"
| "decode_quanta _ = None"

text \<open>
  The decoder skips carriage returns and line feeds wherever they stand, also inside
  and after the padding.
\<close>

definition is_newline :: "char \<Rightarrow> bool" where
  "is_newline c = (c = CHR 0x0A \<or> c = CHR 0x0D)"

definition DecodeString :: "string \<Rightarrow> string option" where
  "DecodeString s = decode_quanta (filter (\<lambda>c. \<not> is_newline c) s)"

subsection \<open>http.Header\<close>

text \<open>
  \<^verbatim>\<open>http.Header\<close> is \<^verbatim>\<open>map[string][]string\<close>: the values of one name in the
  order they arrived. Its methods look a name up under its canonical form. The bytes
  that may stand in a header name are the token characters of HTTP: digits, letters and
  \<^verbatim>\<open>! # $ % & ' * + - . ^ _ ` | ~\<close>.
\<close>

type_synonym Header = "string \<rightharpoonup> string list"

definition validHeaderFieldByte :: "char \<Rightarrow> bool" where
  "validHeaderFieldByte c =
     (let n = (of_char c :: nat) in
      (48 \<le> n \<and> n \<le> 57) \<or> (65 \<le> n \<and> n \<le> 90) \<or> (97 \<le> n \<and> n \<le> 122)
      \<or> n \<in> {33, 35, 36, 37, 38, 39, 42, 43, 45, 46, 94, 95, 96, 124, 126})"

definition is_lower :: "char \<Rightarrow> bool" where
  "is_lower c = (97 \<le> (of_char c :: nat) \<and> (of_char c :: nat) \<le> 122)"

definition is_upper :: "char \<Rightarrow> bool" where
  "is_upper c = (65 \<le> (of_char c :: nat) \<and> (of_char c :: nat) \<le> 90)"

text \<open>
  The canonical form of a header name: the first letter and every letter after a
  hyphen in upper case, the other letters in lower case. The flag says whether the
  next letter is to be in upper case.
\<close>

fun canonical_bytes :: "bool \<Rightarrow> string \<Rightarrow> string" where
  "canonical_bytes upper [] = []"
| "canonical_bytes upper (c # cs) =
     (let c' = (if upper \<and> is_lower c then char_of ((of_char c :: nat) - 32)
                else if \<not> upper \<and> is_upper c then char_of ((of_char c :: nat) + 32)
                else c)
      in c' # canonical_bytes (c' = CHR ''-'') cs)"

text \<open>A name with a byte that cannot stand in a header name is returned unchanged.\<close>

definition CanonicalMIMEHeaderKey :: "string \<Rightarrow> string" where
  "CanonicalMIMEHeaderKey s =
     (if list_all validHeaderFieldByte s then canonical_bytes True s else s)"

text \<open>The map read at a key, \<^verbatim>\<open>h[k]\<close>: no values for a key that is not in the map.\<close>

definition lookup :: "Header \<Rightarrow> string \<Rightarrow> string list" where
  "lookup h k = (case h k of None \<Rightarrow> [] | Some vs \<Rightarrow> vs)"

definition Get :: "Header \<Rightarrow> string \<Rightarrow> string" where
  "Get h key =
     (case lookup h (CanonicalMIMEHeaderKey key) of
        [] \<Rightarrow> []
      | v # vs \<Rightarrow> v)"

definition Set_header :: "Header \<Rightarrow> string \<Rightarrow> string \<Rightarrow> Header" where
  "Set_header h key v = h(CanonicalMIMEHeaderKey key \<mapsto> [v])"

definition Add :: "Header \<Rightarrow> string \<Rightarrow> string \<Rightarrow> Header" where
  "Add h key v =
     (let k = CanonicalMIMEHeaderKey key in
      h(k \<mapsto> lookup h k @ [v]))"

definition Del :: "Header \<Rightarrow> string \<Rightarrow> Header" where
  "Del h key = h(CanonicalMIMEHeaderKey key := None)"

definition Values :: "Header \<Rightarrow> string \<Rightarrow> string list" where
  "Values h key = lookup h (CanonicalMIMEHeaderKey key)"

subsection \<open>Streams, requests, responses\<close>

text \<open>Go's \<^verbatim>\<open>error\<close> values, as far as the proxy can meet them.\<close>

datatype go_error =
    ConnectFailed | LookupFailed | DeadlineExceeded | StreamBroken | HijackFailed
  | InvalidMethod | InvalidURL | ErrBodyNotAllowed

text \<open>
  A body stream (\<^verbatim>\<open>io.ReadCloser\<close>): the bytes it delivers, and then either the end
  of the stream (\<open>None\<close>) or a read error.
\<close>

datatype ReadCloser = ReadCloser (avail: string) (fault: "go_error option")

text \<open>
  \<^verbatim>\<open>url.URL\<close>, a parsed URL: the scheme, the host (\<open>host\<close> or \<open>host:port\<close>,
  the field \<^verbatim>\<open>Host\<close> of Go), the path and the query.
\<close>

record url_URL =
  Scheme :: string
  URLHost :: string
  Path :: string
  RawQuery :: string

text \<open>\<^verbatim>\<open>http.Request\<close>, the fields the proxy reads.\<close>

record Request =
  Method :: string
  URL :: url_URL
  Host :: string
  Header :: Header
  Body :: ReadCloser
  RemoteAddr :: string

text \<open>\<^verbatim>\<open>http.Response\<close>, the fields the proxy reads.\<close>

record Response =
  StatusCode :: int
  RespHeader :: Header
  RespBody :: ReadCloser

record Client =
  Timeout :: nat

definition StatusOK :: int where "StatusOK = 200"
definition StatusSwitchingProtocols :: int where "StatusSwitchingProtocols = 101"
definition StatusProxyAuthRequired :: int where "StatusProxyAuthRequired = 407"
definition StatusInternalServerError :: int where "StatusInternalServerError = 500"
definition StatusBadGateway :: int where "StatusBadGateway = 502"

subsection \<open>http.ResponseWriter\<close>

text \<open>
  The state of a response writer: the header map the handler edits (\<^verbatim>\<open>w.Header()\<close>);
  the status code and the header block that went to the client, fixed by the first call
  of \<^verbatim>\<open>WriteHeader\<close> with a final status; the informational responses sent before it;
  the body bytes written; and, when the writer is an \<^verbatim>\<open>http.Hijacker\<close>, what
  \<^verbatim>\<open>Hijack()\<close> returns.
\<close>

record ResponseWriter =
  hdr :: Header
  sent :: "(int \<times> Header) option"
  informational :: "(int \<times> Header) list"
  written :: string
  hijacker :: "go_error option option"

definition freshWriter :: "go_error option option \<Rightarrow> ResponseWriter" where
  "freshWriter hj =
     \<lparr>hdr = Map.empty, sent = None, informational = [], written = [], hijacker = hj\<rparr>"

text \<open>
  \<^verbatim>\<open>WriteHeader\<close>: a call after the header was written is logged as superfluous and
  ignored; a code outside 100..999 panics (\<open>None\<close>); a 1xx code other than 101 sends an
  informational response and leaves the final status open; any other code is the status
  of the response, sent with the header map as it is at that moment.
\<close>

definition WriteHeader :: "ResponseWriter \<Rightarrow> int \<Rightarrow> ResponseWriter option" where
  "WriteHeader w code =
     (if sent w \<noteq> None then Some w
      else if code < 100 \<or> code > 999 then None
      else if 100 \<le> code \<and> code \<le> 199 \<and> code \<noteq> StatusSwitchingProtocols
        then Some (w\<lparr>informational := informational w @ [(code, hdr w)]\<rparr>)
      else Some (w\<lparr>sent := Some (code, hdr w)\<rparr>))"

text \<open>The statuses whose response carries a body: all but 1xx, 204 and 304.\<close>

definition bodyAllowedForStatus :: "int \<Rightarrow> bool" where
  "bodyAllowedForStatus status =
     (if 100 \<le> status \<and> status \<le> 199 then False
      else if status = 204 then False
      else if status = 304 then False
      else True)"

text \<open>
  \<^verbatim>\<open>Write\<close>: writes the header with status 200 first if none was written; an empty
  write succeeds; body bytes are refused with \<^verbatim>\<open>ErrBodyNotAllowed\<close> when the status
  that was sent carries no body, and appended to the body otherwise.
\<close>

definition Write :: "ResponseWriter \<Rightarrow> string \<Rightarrow> ResponseWriter \<times> go_error option" where
  "Write w p =
     (let w' = (if sent w = None then w\<lparr>sent := Some (StatusOK, hdr w)\<rparr> else w);
          status = (case sent w of None \<Rightarrow> StatusOK | Some (code, h) \<Rightarrow> code)
      in if p = [] then (w', None)
         else if \<not> bodyAllowedForStatus status then (w', Some ErrBodyNotAllowed)
         else (w'\<lparr>written := written w' @ p\<rparr>, None))"

text \<open>
  \<^verbatim>\<open>http.Error\<close>: drops a length meant for other content, sets the plain-text content
  type, writes the status and then the message followed by a line feed
  (\<^verbatim>\<open>fmt.Fprintln\<close>, whose error is not looked at).
\<close>

definition Error :: "ResponseWriter \<Rightarrow> string \<Rightarrow> int \<Rightarrow> ResponseWriter option" where
  "Error w msg code =
     (let h0 = Del (hdr w) ''Content-Length'';
          h1 = Set_header h0 ''Content-Type'' ''text/plain; charset=utf-8'';
          h2 = Set_header h1 ''X-Content-Type-Options'' ''nosniff''
      in case WriteHeader (w\<lparr>hdr := h2\<rparr>) code of
           None \<Rightarrow> None
         | Some w' \<Rightarrow> Some (fst (Write w' (msg @ [CHR 0x0A]))))"

text \<open>
  \<^verbatim>\<open>io.Copy(w, body)\<close>: the bytes the stream delivers are written to the writer, in
  order. The copy stops with the error of a write the writer refuses; otherwise its
  result is the read error, if the stream ended in one. Nothing is written for a stream
  that delivers no byte.
\<close>

definition Copy :: "ResponseWriter \<Rightarrow> ReadCloser \<Rightarrow> ResponseWriter \<times> go_error option" where
  "Copy w src =
     (if avail src = [] then (w, fault src)
      else (case Write w (avail src) of
              (w', Some e) \<Rightarrow> (w', Some e)
            | (w', None) \<Rightarrow> (w', fault src)))"

section \<open>The proxy server\<close>

record ProxyServer =
  username :: string
  password :: string
  port :: string

definition NewProxyServer :: "string \<Rightarrow> string \<Rightarrow> string \<Rightarrow> ProxyServer" where
  "NewProxyServer u p prt = \<lparr>username = u, password = p, port = prt\<rparr>"

text \<open>\<^verbatim>\<open>authenticateRequest\<close> (main.go, lines 32--57).\<close>

definition authenticateRequest :: "ProxyServer \<Rightarrow> Request \<Rightarrow> bool" where
  "authenticateRequest ps r =
     (let auth = Get (Header r) ''Proxy-Authorization'' in
      if auth = [] then False
      else if \<not> HasPrefix auth ''Basic '' then False
      else (case DecodeString (drop 6 auth) of
              None \<Rightarrow> False
            | Some payload \<Rightarrow>
                (let credentials = SplitN payload '':'' 2 in
                 if length credentials \<noteq> 2 then False
                 else credentials ! 0 = username ps \<and> credentials ! 1 = password ps)))"

subsection \<open>The world outside the handler\<close>

text \<open>
  What a handler cannot decide by itself is a parameter of the model: the text of a
  URL (\<^verbatim>\<open>u.String()\<close>) and what \<^verbatim>\<open>url.Parse\<close> reads from a text, what
  \<^verbatim>\<open>client.Do\<close> returns for an outbound request under the client's timeout, whether
  \<^verbatim>\<open>net.DialTimeout\<close> connects (\<open>None\<close>) or fails, and the order in which a
  \<^verbatim>\<open>range\<close> loop visits the names of a header map, which Go leaves open.
\<close>

record World =
  url_String :: "url_URL \<Rightarrow> string"
  url_Parse :: "string \<Rightarrow> url_URL option"
  client_Do :: "Client \<Rightarrow> Request \<Rightarrow> go_error + Response"
  net_DialTimeout :: "string \<Rightarrow> string \<Rightarrow> nat \<Rightarrow> go_error option"
  range_order :: "Header \<Rightarrow> string list"

text \<open>A \<^verbatim>\<open>range\<close> loop visits every name of the map once.\<close>

definition enumerates :: "string list \<Rightarrow> Header \<Rightarrow> bool" where
  "enumerates ks h = (distinct ks \<and> set ks = dom h)"

text \<open>
  What a handler does to the outside, in the order it does it: the outbound request,
  the dial and the takeover, each with the error it returned (\<open>None\<close> for success), its
  calls on the response writer, log lines, the copy loops (\<^verbatim>\<open>io.Copy(dst, src)\<close>, and
  the one started as a unit of its own with \<^verbatim>\<open>go\<close>) and the closing of the
  connections it holds.
\<close>

datatype conn = ResponseWriterSink | RespBodyStream | DestConn | ClientConn

datatype event =
    EvDo Client Request "go_error option"
  | EvDial string string nat "go_error option"
  | EvWriteHeader int
  | EvError string int
  | EvAssertHijacker
  | EvHijack "go_error option"
  | EvGoCopy conn conn
  | EvCopy conn conn
  | EvClose conn
  | EvLog string

record Outcome =
  writer :: ResponseWriter
  events :: "event list"
  panicked :: bool

definition finish :: "ResponseWriter \<Rightarrow> ResponseWriter option \<Rightarrow> event list \<Rightarrow> Outcome" where
  "finish w0 res evs =
     (case res of
        None \<Rightarrow> \<lparr>writer = w0, events = evs, panicked = True\<rparr>
      | Some w' \<Rightarrow> \<lparr>writer = w', events = evs, panicked = False\<rparr>)"

subsection \<open>http.NewRequest\<close>

definition validMethod :: "string \<Rightarrow> bool" where
  "validMethod m = (m \<noteq> [] \<and> list_all validHeaderFieldByte m)"

text \<open>
  \<^verbatim>\<open>strings.LastIndex\<close> for a single byte: the position of its last occurrence, or
  \<open>-1\<close>. The first argument of the loop is the position of the byte at hand, the last
  the position found so far.
\<close>

fun last_index_from :: "int \<Rightarrow> char \<Rightarrow> string \<Rightarrow> int \<Rightarrow> int" where
  "last_index_from i c [] found = found"
| "last_index_from i c (x # xs) found =
     last_index_from (i + 1) c xs (if x = c then i else found)"

definition LastIndex :: "string \<Rightarrow> char \<Rightarrow> int" where
  "LastIndex s c = last_index_from 0 c s (- 1)"

text \<open>
  \<^verbatim>\<open>hasPort\<close> and \<^verbatim>\<open>removeEmptyPort\<close> of net/http: a host has a port when its
  last colon stands behind its last closing bracket; \<open>host:\<close> with nothing after the
  colon becomes \<open>host\<close>.
\<close>

definition hasPort :: "string \<Rightarrow> bool" where
  "hasPort s = (LastIndex s (CHR '':'') > LastIndex s (CHR '']''))"

definition TrimSuffix_colon :: "string \<Rightarrow> string" where
  "TrimSuffix_colon s = (if s \<noteq> [] \<and> last s = CHR '':'' then butlast s else s)"

definition removeEmptyPort :: "string \<Rightarrow> string" where
  "removeEmptyPort host = (if hasPort host then TrimSuffix_colon host else host)"

text \<open>
  \<^verbatim>\<open>http.NewRequest\<close>: an empty method stands for \<open>GET\<close>; the method must be a
  token and the URL text must parse; the URL of the new request is the parsed one with
  an empty port removed from its host, which is also the \<^verbatim>\<open>Host\<close> of the request;
  the new request has no header.
\<close>

definition NewRequest :: "World \<Rightarrow> string \<Rightarrow> string \<Rightarrow> ReadCloser \<Rightarrow> go_error + Request" where
  "NewRequest env m url b =
     (let m' = (if m = [] then ''GET'' else m) in
      if \<not> validMethod m' then Inl InvalidMethod
      else (case url_Parse env url of
              None \<Rightarrow> Inl InvalidURL
            | Some u \<Rightarrow>
                (let u' = u\<lparr>URLHost := removeEmptyPort (URLHost u)\<rparr> in
                 Inr \<lparr>Method = m', URL = u', Host = URLHost u', Header = Map.empty,
                      Body = b, RemoteAddr = []\<rparr>)))"

subsection \<open>The plain relay\<close>

text \<open>
  The two nested loops that copy a header map (main.go, lines 85--89 and 100--104):
  for every name, in the order of the \<^verbatim>\<open>range\<close>, every value is added in its order.
\<close>

fun add_values :: "string \<Rightarrow> string list \<Rightarrow> Header \<Rightarrow> Header" where
  "add_values name [] dst = dst"
| "add_values name (v # vs) dst = add_values name vs (Add dst name v)"

fun copy_header :: "string list \<Rightarrow> Header \<Rightarrow> Header \<Rightarrow> Header" where
  "copy_header [] src dst = dst"
| "copy_header (name # names) src dst =
     copy_header names src
       (add_values name (lookup src name) dst)"

definition challenge :: string where
  "challenge = ''Basic realm=\"Proxy Server\"''"

text \<open>
  Lines 68--89 of \<^verbatim>\<open>handleHTTP\<close>: the two proxy headers are deleted from the inbound
  header, the outbound request is made from the inbound method, the text of the inbound
  URL (\<^verbatim>\<open>r.URL.String()\<close>) and the inbound body, and the remaining headers are copied
  to it.
\<close>

definition proxyRequest :: "World \<Rightarrow> Request \<Rightarrow> go_error + Request" where
  "proxyRequest env r =
     (let h = Del (Del (Header r) ''Proxy-Authorization'') ''Proxy-Connection'' in
      case NewRequest env (Method r) (url_String env (URL r)) (Body r) of
        Inl e \<Rightarrow> Inl e
      | Inr q \<Rightarrow> Inr (q\<lparr>Header := copy_header (range_order env h) h (Header q)\<rparr>))"

text \<open>\<^verbatim>\<open>handleHTTP\<close> (main.go, lines 60--114).\<close>

definition handleHTTP :: "ProxyServer \<Rightarrow> World \<Rightarrow> ResponseWriter \<Rightarrow> Request \<Rightarrow> Outcome" where
  "handleHTTP ps env w r =
     (if \<not> authenticateRequest ps r then
        finish w
          (Error (w\<lparr>hdr := Set_header (hdr w) ''Proxy-Authenticate'' challenge\<rparr>)
             ''Proxy Authentication Required'' StatusProxyAuthRequired)
          [EvError ''Proxy Authentication Required'' StatusProxyAuthRequired]
      else
        let client = \<lparr>Timeout = 30\<rparr> in
        case proxyRequest env r of
          Inl e \<Rightarrow>
            finish w (Error w ''Error creating proxy request'' StatusInternalServerError)
              [EvError ''Error creating proxy request'' StatusInternalServerError]
        | Inr proxyReq \<Rightarrow>
            (case client_Do env client proxyReq of
               Inl e \<Rightarrow>
                 finish w (Error w ''Error making proxy request'' StatusBadGateway)
                   [EvDo client proxyReq (Some e),
                    EvError ''Error making proxy request'' StatusBadGateway]
             | Inr resp \<Rightarrow>
                 (let w1 = w\<lparr>hdr := copy_header (range_order env (RespHeader resp))
                                       (RespHeader resp) (hdr w)\<rparr>
                  in case WriteHeader w1 (StatusCode resp) of
                       None \<Rightarrow>
                         \<lparr>writer = w1,
                          events = [EvDo client proxyReq None,
                                    EvWriteHeader (StatusCode resp),
                                    EvClose RespBodyStream],
                          panicked = True\<rparr>
                     | Some w2 \<Rightarrow>
                         (case Copy w2 (RespBody resp) of
                            (w3, err) \<Rightarrow>
                              \<lparr>writer = w3,
                               events =
                                 [EvDo client proxyReq None,
                                  EvWriteHeader (StatusCode resp),
                                  EvCopy ResponseWriterSink RespBodyStream]
                                 @ (case err of
                                      None \<Rightarrow> []
                                    | Some e \<Rightarrow> [EvLog ''Error copying response body''])
                                 @ [EvClose RespBodyStream],
                               panicked = False\<rparr>))))"

subsection \<open>The tunnel relay\<close>

text \<open>
  \<^verbatim>\<open>handleHTTPS\<close> (main.go, lines 117--158). Once the client connection is taken
  over, the handler starts the unit that copies from the client to the destination,
  copies from the destination to the client itself, and closes both connections when
  its own copy returns.
\<close>

definition handleHTTPS :: "ProxyServer \<Rightarrow> World \<Rightarrow> ResponseWriter \<Rightarrow> Request \<Rightarrow> Outcome" where
  "handleHTTPS ps env w r =
     (if \<not> authenticateRequest ps r then
        finish w
          (Error (w\<lparr>hdr := Set_header (hdr w) ''Proxy-Authenticate'' challenge\<rparr>)
             ''Proxy Authentication Required'' StatusProxyAuthRequired)
          [EvError ''Proxy Authentication Required'' StatusProxyAuthRequired]
      else
        case net_DialTimeout env ''tcp'' (Host r) 30 of
          Some e \<Rightarrow>
            finish w (Error w ''Error connecting to destination'' StatusBadGateway)
              [EvDial ''tcp'' (Host r) 30 (Some e),
               EvError ''Error connecting to destination'' StatusBadGateway]
        | None \<Rightarrow>
            (case WriteHeader w StatusOK of
               None \<Rightarrow>
                 \<lparr>writer = w,
                  events = [EvDial ''tcp'' (Host r) 30 None, EvWriteHeader StatusOK,
                            EvClose DestConn],
                  panicked = True\<rparr>
             | Some w1 \<Rightarrow>
                 (case hijacker w1 of
                    None \<Rightarrow>
                      finish w1 (Error w1 ''Hijacking not supported'' StatusInternalServerError)
                        [EvDial ''tcp'' (Host r) 30 None, EvWriteHeader StatusOK,
                         EvAssertHijacker,
                         EvError ''Hijacking not supported'' StatusInternalServerError,
                         EvClose DestConn]
                  | Some (Some e) \<Rightarrow>
                      finish w1
                        (Error w1 ''Error hijacking connection'' StatusInternalServerError)
                        [EvDial ''tcp'' (Host r) 30 None, EvWriteHeader StatusOK,
                         EvAssertHijacker, EvHijack (Some e),
                         EvError ''Error hijacking connection'' StatusInternalServerError,
                         EvClose DestConn]
                  | Some None \<Rightarrow>
                      \<lparr>writer = w1,
                       events = [EvDial ''tcp'' (Host r) 30 None, EvWriteHeader StatusOK,
                                 EvAssertHijacker, EvHijack None,
                                 EvGoCopy DestConn ClientConn, EvCopy ClientConn DestConn,
                                 EvClose ClientConn, EvClose DestConn],
                       panicked = False\<rparr>)))"

subsection \<open>The dispatcher\<close>

text \<open>\<^verbatim>\<open>ServeHTTP\<close> (main.go, lines 161--169): one log line, then the relay by method.\<close>

definition ServeHTTP :: "ProxyServer \<Rightarrow> World \<Rightarrow> ResponseWriter \<Rightarrow> Request \<Rightarrow> Outcome" where
  "ServeHTTP ps env w r =
     (let line = EvLog (RemoteAddr r @ '' '' @ Method r @ '' '' @ url_String env (URL r));
          out = (if Method r = ''CONNECT'' then handleHTTPS ps env w r
                 else handleHTTP ps env w r)
      in out\<lparr>events := line # events out\<rparr>)"

section \<open>Reading an outcome\<close>

text \<open>The attempts to reach a target: outbound requests and dials.\<close>

fun network_event :: "event \<Rightarrow> bool" where
  "network_event (EvDo c q res) = True"
| "network_event (EvDial n a t res) = True"
| "network_event e = False"

definition outbound_attempts :: "event list \<Rightarrow> event list" where
  "outbound_attempts evs = filter network_event evs"

text \<open>
  The connections a handler holds after a sequence of events: a successful dial gives
  it the destination connection, a successful takeover the client connection, an
  answered outbound request the body stream of the response; closing gives a
  connection up.
\<close>

fun held :: "conn list \<Rightarrow> event list \<Rightarrow> conn list" where
  "held cs [] = cs"
| "held cs (EvDial n a t None # evs) = held (DestConn # cs) evs"
| "held cs (EvHijack None # evs) = held (ClientConn # cs) evs"
| "held cs (EvDo c q None # evs) = held (RespBodyStream # cs) evs"
| "held cs (EvClose c # evs) = held (removeAll c cs) evs"
| "held cs (e # evs) = held cs evs"

text \<open>
  \<open>before a b evs\<close>: the event \<open>a\<close> occurs in \<open>evs\<close>, and no \<open>b\<close> occurs ahead of
  its first occurrence.
\<close>

fun before :: "event \<Rightarrow> event \<Rightarrow> event list \<Rightarrow> bool" where
  "before a b [] = False"
| "before a b (x # xs) = (if x = a then True else if x = b then False else before a b xs)"

text \<open>The status codes a response writer takes as the status of the response.\<close>

definition final_status :: "int \<Rightarrow> bool" where
  "final_status code = (code = StatusSwitchingProtocols \<or> (200 \<le> code \<and> code \<le> 999))"

text \<open>
  A header map as the HTTP server and client of Go hand it out: every name in its
  canonical form.
\<close>

definition canonical_keys :: "Header \<Rightarrow> bool" where
  "canonical_keys h = (\<forall>k \<in> dom h. CanonicalMIMEHeaderKey k = k)"

text \<open>The status code that went to the client, if one did.\<close>

definition sent_status :: "ResponseWriter \<Rightarrow> int option" where
  "sent_status w = map_option fst (sent w)"

definition sent_header :: "ResponseWriter \<Rightarrow> Header" where
  "sent_header w = (case sent w of None \<Rightarrow> Map.empty | Some (code, h) \<Rightarrow> h)"

section \<open>The inputs of the test suite\<close>

text \<open>
  The server of the tests, \<^verbatim>\<open>NewProxyServer("admin", "password123", "8080")\<close>, a
  request as \<^verbatim>\<open>httptest.NewRequest(method, target, nil)\<close> makes it, and
  \<^verbatim>\<open>req.Header.Set("Proxy-Authorization", v)\<close>.
\<close>

definition proxy :: ProxyServer where
  "proxy = NewProxyServer ''admin'' ''password123'' ''8080''"

definition testRequest :: "string \<Rightarrow> url_URL \<Rightarrow> string \<Rightarrow> Request" where
  "testRequest m target host =
     \<lparr>Method = m, URL = target, Host = host, Header = Map.empty,
      Body = ReadCloser [] None, RemoteAddr = ''192.0.2.1:1234''\<rparr>"

definition withAuth :: "string \<Rightarrow> Request \<Rightarrow> Request" where
  "withAuth v r = r\<lparr>Header := Set_header (Header r) ''Proxy-Authorization'' v\<rparr>"

definition getExample :: Request where
  "getExample =
     testRequest ''GET''
       \<lparr>Scheme = ''http'', URLHost = ''example.com'', Path = [], RawQuery = []\<rparr>
       ''example.com''"

definition connectExample :: Request where
  "connectExample =
     testRequest ''CONNECT''
       \<lparr>Scheme = [], URLHost = ''example.com:443'', Path = [], RawQuery = []\<rparr>
       ''example.com:443''"

definition validAuth :: string where
  "validAuth = ''Basic YWRtaW46cGFzc3dvcmQxMjM=''"

text \<open>
  The URLs of the examples, their text as \<^verbatim>\<open>u.String()\<close> writes it, and the parser
  on these texts. The third has a host with an empty port.
\<close>

definition urlText :: "url_URL \<Rightarrow> string" where
  "urlText u =
     (if Scheme u = [] then [] else Scheme u @ '':'') @ ''//'' @ URLHost u @ Path u
     @ (if RawQuery u = [] then [] else ''?'' @ RawQuery u)"

definition knownURLs :: "url_URL list" where
  "knownURLs =
     [\<lparr>Scheme = ''http'', URLHost = ''example.com'', Path = [], RawQuery = []\<rparr>,
      \<lparr>Scheme = ''http'', URLHost = ''example.com'', Path = ''/api'', RawQuery = []\<rparr>,
      \<lparr>Scheme = ''http'', URLHost = ''example.com:'', Path = ''/api'', RawQuery = ''x=1''\<rparr>,
      \<lparr>Scheme = [], URLHost = ''example.com:443'', Path = [], RawQuery = []\<rparr>]"

definition parseKnown :: "string \<Rightarrow> url_URL option" where
  "parseKnown s = find (\<lambda>u. urlText u = s) knownURLs"

text \<open>
  A world in which nothing can be reached (the targets of the tests
  \<^verbatim>\<open>TestHandleHTTP_InvalidURL\<close> and \<^verbatim>\<open>TestHandleHTTPS_InvalidHost\<close>), and one in
  which every dial connects and every outbound request is answered with a fixed
  response whose body stream breaks after its first bytes.
\<close>

definition unreachable :: World where
  "unreachable =
     \<lparr>url_String = urlText, url_Parse = parseKnown,
      client_Do = (\<lambda>c q. Inl LookupFailed),
      net_DialTimeout = (\<lambda>n a t. Some LookupFailed),
      range_order = (\<lambda>h. [''Accept'', ''X-Custom''])\<rparr>"

definition upstreamResponse :: Response where
  "upstreamResponse =
     \<lparr>StatusCode = 404,
      RespHeader = [''Content-Type'' \<mapsto> [''application/json''],
                    ''Set-Cookie'' \<mapsto> [''a=1'', ''b=2'']],
      RespBody = ReadCloser ''{\"message\": \"part'' (Some StreamBroken)\<rparr>"

definition reachable :: World where
  "reachable =
     \<lparr>url_String = urlText, url_Parse = parseKnown,
      client_Do = (\<lambda>c q. Inr upstreamResponse),
      net_DialTimeout = (\<lambda>n a t. None),
      range_order = (\<lambda>h. if h ''Set-Cookie'' = None then [''Accept'', ''X-Custom'']
                         else [''Set-Cookie'', ''Content-Type''])\<rparr>"

text \<open>A request with repeated headers and the two proxy headers.\<close>

definition postExample :: Request where
  "postExample =
     \<lparr>Method = ''POST'',
      URL = \<lparr>Scheme = ''http'', URLHost = ''example.com'', Path = ''/api'', RawQuery = []\<rparr>,
      Host = ''example.com'',
      Header = [''Proxy-Authorization'' \<mapsto> [validAuth],
                ''Proxy-Connection'' \<mapsto> [''keep-alive''],
                ''Accept'' \<mapsto> [''text/html'', ''application/json''],
                ''X-Custom'' \<mapsto> [''CustomValue'']],
      Body = ReadCloser ''{\"test\": \"data\"}'' None,
      RemoteAddr = ''192.0.2.1:1234''\<rparr>"

text \<open>
  The same request as a \<open>GET\<close> for \<^verbatim>\<open>http://example.com:/api?x=1\<close>, whose host has
  an empty port.
\<close>

definition emptyPortExample :: Request where
  "emptyPortExample =
     postExample\<lparr>Method := ''GET'',
       URL := \<lparr>Scheme = ''http'', URLHost = ''example.com:'', Path = ''/api'',
               RawQuery = ''x=1''\<rparr>,
       Host := ''example.com:''\<rparr>"

text \<open>
  A world like \<open>reachable\<close> whose upstream answers with the status line
  \<^verbatim>\<open>HTTP/1.1 099\<close>, which \<^verbatim>\<open>client.Do\<close> hands out as status 99.
\<close>

definition oddUpstream :: World where
  "oddUpstream =
     reachable\<lparr>client_Do := (\<lambda>c q. Inr (upstreamResponse\<lparr>StatusCode := 99\<rparr>))\<rparr>"

section \<open>Properties of the library functions\<close>

lemma HasPrefix_iff: "HasPrefix s pre \<longleftrightarrow> (\<exists>t. s = pre @ t)"
  unfolding HasPrefix_def
proof
  assume a: "length pre \<le> length s \<and> take (length pre) s = pre"
  have "s = take (length pre) s @ drop (length pre) s" by simp
  with a have "s = pre @ drop (length pre) s" by simp
  then show "\<exists>t. s = pre @ t" ..
next
  assume "\<exists>t. s = pre @ t"
  then show "length pre \<le> length s \<and> take (length pre) s = pre" by auto
qed

lemma cut_first_colon_sound:
  "cut_first '':'' s = Some (u, p) \<Longrightarrow> s = u @ '':'' @ p \<and> CHR '':'' \<notin> set u"
proof (induction s arbitrary: u)
  case Nil
  then show ?case by simp
next
  case (Cons c cs)
  show ?case
  proof (cases "c = CHR '':''")
    case True
    with Cons.prems show ?thesis by (simp add: HasPrefix_def)
  next
    case False
    with Cons.prems obtain a where a: "cut_first '':'' cs = Some (a, p)" and u: "u = c # a"
      by (auto simp: HasPrefix_def split: option.splits)
    from Cons.IH[OF a] False u show ?thesis by simp
  qed
qed

lemma cut_first_colon_complete:
  "CHR '':'' \<notin> set u \<Longrightarrow> cut_first '':'' (u @ '':'' @ p) = Some (u, p)"
  by (induction u) (auto simp: HasPrefix_def)

lemma cut_first_colon_Some:
  "cut_first '':'' s = Some (u, p) \<longleftrightarrow> s = u @ '':'' @ p \<and> CHR '':'' \<notin> set u"
  using cut_first_colon_sound cut_first_colon_complete by blast

lemma cut_first_colon_None: "cut_first '':'' s = None \<longleftrightarrow> CHR '':'' \<notin> set s"
  by (induction s) (auto simp: HasPrefix_def split: option.splits)

lemma SplitN_two:
  "SplitN s '':'' 2 = (case cut_first '':'' s of None \<Rightarrow> [s] | Some (a, b) \<Rightarrow> [a, b])"
  by (simp add: numeral_2_eq_2 split: option.splits)

lemma authenticateRequest_cut:
  "authenticateRequest ps r \<longleftrightarrow>
     (\<exists>enc payload. Get (Header r) ''Proxy-Authorization'' = ''Basic '' @ enc
        \<and> DecodeString enc = Some payload
        \<and> cut_first '':'' payload = Some (username ps, password ps))"
proof (cases "HasPrefix (Get (Header r) ''Proxy-Authorization'') ''Basic ''")
  case True
  then obtain enc where e: "Get (Header r) ''Proxy-Authorization'' = ''Basic '' @ enc"
    by (auto simp: HasPrefix_iff)
  then have ne: "Get (Header r) ''Proxy-Authorization'' \<noteq> []" by simp
  have d: "drop 6 (Get (Header r) ''Proxy-Authorization'') = enc" using e by simp
  show ?thesis
    unfolding authenticateRequest_def Let_def
    using True ne d e
    by (auto simp: SplitN_two split: option.splits)
next
  case False
  then have "\<not> authenticateRequest ps r"
    by (simp add: authenticateRequest_def Let_def)
  moreover have "\<nexists>enc. Get (Header r) ''Proxy-Authorization'' = ''Basic '' @ enc"
    using False by (auto simp: HasPrefix_iff)
  ultimately show ?thesis by blast
qed

lemma decode_quanta_outside:
  "decodeMap c = None \<Longrightarrow> decode_quanta (c # s) = None"
  by (cases "c # s" rule: decode_quanta.cases) auto

lemma DecodeString_space: "DecodeString (CHR '' '' # enc) = None"
proof -
  have "decodeMap (CHR '' '') = None" by (simp add: decodeMap_def)
  then show ?thesis
    by (simp add: DecodeString_def is_newline_def decode_quanta_outside)
qed

lemma authenticateRequest_needs_prefix:
  "\<not> HasPrefix (Get (Header r) ''Proxy-Authorization'') ''Basic '' \<Longrightarrow> \<not> authenticateRequest ps r"
  by (simp add: authenticateRequest_def Let_def)

lemma auth_absent: "Header r ''Proxy-Authorization'' = None \<Longrightarrow> \<not> authenticateRequest ps r"
proof -
  assume a: "Header r ''Proxy-Authorization'' = None"
  have c: "CanonicalMIMEHeaderKey ''Proxy-Authorization'' = ''Proxy-Authorization''" by code_simp
  from a c have "Get (Header r) ''Proxy-Authorization'' = []"
    by (simp add: Get_def lookup_def)
  then show ?thesis by (simp add: authenticateRequest_def Let_def)
qed


section \<open>The authenticator\<close>

text \<open>
  C1. \<^verbatim>\<open>authenticateRequest\<close> returns true exactly when the value of
  \<^verbatim>\<open>Proxy-Authorization\<close> is \<open>Basic\<close> and a space followed by valid base64 whose
  decoded payload splits at its first colon into the configured username and the
  configured password. It returns false when the header is absent, when the value does
  not begin with the scheme prefix, when the remainder is not valid base64, when the
  payload has no colon, and when the pair differs from the configured one. A password
  with a colon in it is no obstacle: \<open>admin:pa:ss\<close> splits into \<open>admin\<close> and
  \<open>pa:ss\<close>.
\<close>

theorem authenticateRequest_correct:
  "(authenticateRequest ps r \<longleftrightarrow>
      (\<exists>enc u p. Get (Header r) ''Proxy-Authorization'' = ''Basic '' @ enc
         \<and> DecodeString enc = Some (u @ '':'' @ p) \<and> CHR '':'' \<notin> set u
         \<and> u = username ps \<and> p = password ps))
   \<and> (Header r ''Proxy-Authorization'' = None \<longrightarrow> \<not> authenticateRequest ps r)
   \<and> (\<not> HasPrefix (Get (Header r) ''Proxy-Authorization'') ''Basic ''
        \<longrightarrow> \<not> authenticateRequest ps r)
   \<and> (\<forall>enc. Get (Header r) ''Proxy-Authorization'' = ''Basic '' @ enc
          \<and> DecodeString enc = None \<longrightarrow> \<not> authenticateRequest ps r)
   \<and> (\<forall>enc payload. Get (Header r) ''Proxy-Authorization'' = ''Basic '' @ enc
          \<and> DecodeString enc = Some payload \<and> CHR '':'' \<notin> set payload
          \<longrightarrow> \<not> authenticateRequest ps r)
   \<and> (\<forall>enc u p. Get (Header r) ''Proxy-Authorization'' = ''Basic '' @ enc
          \<and> DecodeString enc = Some (u @ '':'' @ p) \<and> CHR '':'' \<notin> set u
          \<and> (u \<noteq> username ps \<or> p \<noteq> password ps)
          \<longrightarrow> \<not> authenticateRequest ps r)
   \<and> DecodeString ''YWRtaW46cGE6c3M='' = Some ''admin:pa:ss''
   \<and> SplitN ''admin:pa:ss'' '':'' 2 = [''admin'', ''pa:ss'']
   \<and> authenticateRequest (NewProxyServer ''admin'' ''pa:ss'' ''8080'')
        (withAuth ''Basic YWRtaW46cGE6c3M='' getExample)"
proof -
  have main: "authenticateRequest ps r \<longleftrightarrow>
      (\<exists>enc u p. Get (Header r) ''Proxy-Authorization'' = ''Basic '' @ enc
         \<and> DecodeString enc = Some (u @ '':'' @ p) \<and> CHR '':'' \<notin> set u
         \<and> u = username ps \<and> p = password ps)"
  proof -
    have "(\<exists>enc payload. Get (Header r) ''Proxy-Authorization'' = ''Basic '' @ enc
        \<and> DecodeString enc = Some payload
        \<and> cut_first '':'' payload = Some (username ps, password ps))
      \<longleftrightarrow> (\<exists>enc. Get (Header r) ''Proxy-Authorization'' = ''Basic '' @ enc
         \<and> DecodeString enc = Some (username ps @ '':'' @ password ps)
         \<and> CHR '':'' \<notin> set (username ps))"
      unfolding cut_first_colon_Some by blast
    also have "\<dots> \<longleftrightarrow> (\<exists>enc u p. Get (Header r) ''Proxy-Authorization'' = ''Basic '' @ enc
         \<and> DecodeString enc = Some (u @ '':'' @ p) \<and> CHR '':'' \<notin> set u
         \<and> u = username ps \<and> p = password ps)"
      by blast
    finally show ?thesis unfolding authenticateRequest_cut .
  qed
  have absent: "Header r ''Proxy-Authorization'' = None \<longrightarrow> \<not> authenticateRequest ps r"
    using auth_absent by blast
  have scheme: "\<not> HasPrefix (Get (Header r) ''Proxy-Authorization'') ''Basic ''
        \<longrightarrow> \<not> authenticateRequest ps r"
    using authenticateRequest_needs_prefix by blast
  have b64: "\<forall>enc. Get (Header r) ''Proxy-Authorization'' = ''Basic '' @ enc
          \<and> DecodeString enc = None \<longrightarrow> \<not> authenticateRequest ps r"
    unfolding authenticateRequest_cut by fastforce
  have nosep: "\<forall>enc payload. Get (Header r) ''Proxy-Authorization'' = ''Basic '' @ enc
          \<and> DecodeString enc = Some payload \<and> CHR '':'' \<notin> set payload
          \<longrightarrow> \<not> authenticateRequest ps r"
    unfolding authenticateRequest_cut cut_first_colon_Some by fastforce
  have mismatch: "\<forall>enc u p. Get (Header r) ''Proxy-Authorization'' = ''Basic '' @ enc
          \<and> DecodeString enc = Some (u @ '':'' @ p) \<and> CHR '':'' \<notin> set u
          \<and> (u \<noteq> username ps \<or> p \<noteq> password ps)
          \<longrightarrow> \<not> authenticateRequest ps r"
  proof (intro allI impI notI)
    fix enc u p
    assume a: "Get (Header r) ''Proxy-Authorization'' = ''Basic '' @ enc
          \<and> DecodeString enc = Some (u @ '':'' @ p) \<and> CHR '':'' \<notin> set u
          \<and> (u \<noteq> username ps \<or> p \<noteq> password ps)"
    assume "authenticateRequest ps r"
    then obtain enc' payload where
      e: "Get (Header r) ''Proxy-Authorization'' = ''Basic '' @ enc'"
      and d: "DecodeString enc' = Some payload"
      and c: "cut_first '':'' payload = Some (username ps, password ps)"
      unfolding authenticateRequest_cut by blast
    from a e have "enc' = enc" by simp
    with a d have "payload = u @ '':'' @ p" by simp
    with c a have "Some (username ps, password ps) = Some (u, p)"
      using cut_first_colon_complete[of u p] by simp
    with a show False by simp
  qed
  have ex1: "DecodeString ''YWRtaW46cGE6c3M='' = Some ''admin:pa:ss''" by code_simp
  have ex2: "SplitN ''admin:pa:ss'' '':'' 2 = [''admin'', ''pa:ss'']" by code_simp
  have ex3: "authenticateRequest (NewProxyServer ''admin'' ''pa:ss'' ''8080'')
        (withAuth ''Basic YWRtaW46cGE6c3M='' getExample)" by code_simp
  show ?thesis
    apply (intro conjI)
            apply (rule main)
           apply (rule absent)
          apply (rule scheme)
         apply (rule b64)
        apply (rule nosep)
       apply (rule mismatch)
      apply (rule ex1)
     apply (rule ex2)
    apply (rule ex3)
    done
qed

text \<open>
  The cases of the test suite: the valid pair, no header, another scheme, bad base64, a
  payload without colon, a wrong username and a wrong password.
\<close>

theorem authenticateRequest_correct_witness:
  "authenticateRequest proxy (withAuth ''Basic YWRtaW46cGFzc3dvcmQxMjM='' getExample)
   \<and> \<not> authenticateRequest proxy getExample
   \<and> \<not> authenticateRequest proxy (withAuth ''Bearer token123'' getExample)
   \<and> \<not> authenticateRequest proxy (withAuth ''Basic invalid-base64'' getExample)
   \<and> \<not> authenticateRequest proxy (withAuth ''Basic YWRtaW5wYXNzd29yZA=='' getExample)
   \<and> \<not> authenticateRequest proxy (withAuth ''Basic d3Jvbmc6cGFzc3dvcmQxMjM='' getExample)
   \<and> \<not> authenticateRequest proxy (withAuth ''Basic YWRtaW46d3Jvbmc='' getExample)"
proof (intro conjI)
  have p: "Get (Header (withAuth ''Basic YWRtaW46cGFzc3dvcmQxMjM='' getExample))
             ''Proxy-Authorization'' = ''Basic '' @ ''YWRtaW46cGFzc3dvcmQxMjM=''
           \<and> DecodeString ''YWRtaW46cGFzc3dvcmQxMjM='' = Some (''admin'' @ '':'' @ ''password123'')
           \<and> CHR '':'' \<notin> set ''admin''
           \<and> ''admin'' = username proxy \<and> ''password123'' = password proxy"
    by code_simp
  show "authenticateRequest proxy (withAuth ''Basic YWRtaW46cGFzc3dvcmQxMjM='' getExample)"
    by (rule authenticateRequest_correct[THEN conjunct1, THEN iffD2])
       (rule exI[of _ "''YWRtaW46cGFzc3dvcmQxMjM=''"], rule exI[of _ "''admin''"],
        rule exI[of _ "''password123''"], rule p)
next
  have "Header getExample ''Proxy-Authorization'' = None" by code_simp
  then show "\<not> authenticateRequest proxy getExample"
    by (rule authenticateRequest_correct[THEN conjunct2, THEN conjunct1, THEN mp])
next
  have "\<not> HasPrefix (Get (Header (withAuth ''Bearer token123'' getExample))
             ''Proxy-Authorization'') ''Basic ''"
    by code_simp
  then show "\<not> authenticateRequest proxy (withAuth ''Bearer token123'' getExample)"
    by (rule authenticateRequest_correct[THEN conjunct2, THEN conjunct2, THEN conjunct1, THEN mp])
next
  have "Get (Header (withAuth ''Basic invalid-base64'' getExample)) ''Proxy-Authorization''
          = ''Basic '' @ ''invalid-base64''
        \<and> DecodeString ''invalid-base64'' = None"
    by code_simp
  then show "\<not> authenticateRequest proxy (withAuth ''Basic invalid-base64'' getExample)"
    by (rule authenticateRequest_correct[THEN conjunct2, THEN conjunct2, THEN conjunct2,
          THEN conjunct1, THEN spec, THEN mp])
next
  have "Get (Header (withAuth ''Basic YWRtaW5wYXNzd29yZA=='' getExample)) ''Proxy-Authorization''
          = ''Basic '' @ ''YWRtaW5wYXNzd29yZA==''
        \<and> DecodeString ''YWRtaW5wYXNzd29yZA=='' = Some ''adminpassword''
        \<and> CHR '':'' \<notin> set ''adminpassword''"
    by code_simp
  then show "\<not> authenticateRequest proxy (withAuth ''Basic YWRtaW5wYXNzd29yZA=='' getExample)"
    by (rule authenticateRequest_correct[THEN conjunct2, THEN conjunct2, THEN conjunct2,
          THEN conjunct2, THEN conjunct1, THEN spec, THEN spec, THEN mp])
next
  have "Get (Header (withAuth ''Basic d3Jvbmc6cGFzc3dvcmQxMjM='' getExample))
          ''Proxy-Authorization'' = ''Basic '' @ ''d3Jvbmc6cGFzc3dvcmQxMjM=''
        \<and> DecodeString ''d3Jvbmc6cGFzc3dvcmQxMjM='' = Some (''wrong'' @ '':'' @ ''password123'')
        \<and> CHR '':'' \<notin> set ''wrong''
        \<and> (''wrong'' \<noteq> username proxy \<or> ''password123'' \<noteq> password proxy)"
    by code_simp
  then show "\<not> authenticateRequest proxy (withAuth ''Basic d3Jvbmc6cGFzc3dvcmQxMjM='' getExample)"
    by (rule authenticateRequest_correct[THEN conjunct2, THEN conjunct2, THEN conjunct2,
          THEN conjunct2, THEN conjunct2, THEN conjunct1, THEN spec, THEN spec, THEN spec, THEN mp])
next
  have "Get (Header (withAuth ''Basic YWRtaW46d3Jvbmc='' getExample))
          ''Proxy-Authorization'' = ''Basic '' @ ''YWRtaW46d3Jvbmc=''
        \<and> DecodeString ''YWRtaW46d3Jvbmc='' = Some (''admin'' @ '':'' @ ''wrong'')
        \<and> CHR '':'' \<notin> set ''admin''
        \<and> (''admin'' \<noteq> username proxy \<or> ''wrong'' \<noteq> password proxy)"
    by code_simp
  then show "\<not> authenticateRequest proxy (withAuth ''Basic YWRtaW46d3Jvbmc='' getExample)"
    by (rule authenticateRequest_correct[THEN conjunct2, THEN conjunct2, THEN conjunct2,
          THEN conjunct2, THEN conjunct2, THEN conjunct1, THEN spec, THEN spec, THEN spec, THEN mp])
qed


text \<open>
  C10. The scheme prefix is compared byte for byte with \<open>Basic\<close> and one space: a value
  that does not begin with exactly these six bytes is rejected, whatever follows, and so
  is a value with a second space after the prefix, since a space is not a base64
  character. In particular \<open>basic\<close> and \<open>BASIC\<close> before the correct encoded pair are
  rejected.
\<close>

theorem scheme_prefix_exact:
  "(\<not> HasPrefix (Get (Header r) ''Proxy-Authorization'') ''Basic ''
      \<longrightarrow> \<not> authenticateRequest ps r)
   \<and> (\<forall>pre enc. Get (Header r) ''Proxy-Authorization'' = pre @ enc
          \<and> length pre = 6 \<and> pre \<noteq> ''Basic '' \<longrightarrow> \<not> authenticateRequest ps r)
   \<and> (\<forall>enc. Get (Header r) ''Proxy-Authorization'' = ''Basic  '' @ enc
          \<longrightarrow> \<not> authenticateRequest ps r)
   \<and> \<not> authenticateRequest proxy (withAuth ''basic YWRtaW46cGFzc3dvcmQxMjM='' getExample)
   \<and> \<not> authenticateRequest proxy (withAuth ''BASIC YWRtaW46cGFzc3dvcmQxMjM='' getExample)
   \<and> \<not> authenticateRequest proxy (withAuth ''BasicYWRtaW46cGFzc3dvcmQxMjM='' getExample)
   \<and> \<not> authenticateRequest proxy (withAuth ''Basic  YWRtaW46cGFzc3dvcmQxMjM='' getExample)
   \<and> authenticateRequest proxy (withAuth ''Basic YWRtaW46cGFzc3dvcmQxMjM='' getExample)"
proof (intro conjI)
  show "\<not> HasPrefix (Get (Header r) ''Proxy-Authorization'') ''Basic ''
      \<longrightarrow> \<not> authenticateRequest ps r"
    using authenticateRequest_needs_prefix by blast
next
  show "\<forall>pre enc. Get (Header r) ''Proxy-Authorization'' = pre @ enc
          \<and> length pre = 6 \<and> pre \<noteq> ''Basic '' \<longrightarrow> \<not> authenticateRequest ps r"
  proof (intro allI impI)
    fix pre enc
    assume a: "Get (Header r) ''Proxy-Authorization'' = pre @ enc
          \<and> length pre = 6 \<and> pre \<noteq> ''Basic ''"
    then have "\<not> HasPrefix (Get (Header r) ''Proxy-Authorization'') ''Basic ''"
      by (simp add: HasPrefix_def)
    then show "\<not> authenticateRequest ps r" by (rule authenticateRequest_needs_prefix)
  qed
next
  show "\<forall>enc. Get (Header r) ''Proxy-Authorization'' = ''Basic  '' @ enc
          \<longrightarrow> \<not> authenticateRequest ps r"
  proof (intro allI impI notI)
    fix enc
    assume a: "Get (Header r) ''Proxy-Authorization'' = ''Basic  '' @ enc"
    assume "authenticateRequest ps r"
    then obtain enc' payload where
      e: "Get (Header r) ''Proxy-Authorization'' = ''Basic '' @ enc'"
      and d: "DecodeString enc' = Some payload"
      unfolding authenticateRequest_cut by blast
    from a e have "enc' = CHR '' '' # enc" by simp
    with d show False by (simp add: DecodeString_space)
  qed
qed code_simp+


theorem scheme_prefix_exact_witness:
  "\<not> authenticateRequest proxy (withAuth ''basic YWRtaW46cGFzc3dvcmQxMjM='' getExample)
   \<and> \<not> authenticateRequest proxy (withAuth ''Basic:YWRtaW46cGFzc3dvcmQxMjM='' getExample)
   \<and> \<not> authenticateRequest proxy (withAuth ''Basic  YWRtaW46cGFzc3dvcmQxMjM='' getExample)"
proof (intro conjI)
  have "\<not> HasPrefix (Get (Header (withAuth ''basic YWRtaW46cGFzc3dvcmQxMjM='' getExample))
             ''Proxy-Authorization'') ''Basic ''"
    by code_simp
  then show "\<not> authenticateRequest proxy (withAuth ''basic YWRtaW46cGFzc3dvcmQxMjM='' getExample)"
    by (rule scheme_prefix_exact[THEN conjunct1, THEN mp])
next
  have "Get (Header (withAuth ''Basic:YWRtaW46cGFzc3dvcmQxMjM='' getExample))
           ''Proxy-Authorization'' = ''Basic:'' @ ''YWRtaW46cGFzc3dvcmQxMjM=''
        \<and> length ''Basic:'' = 6 \<and> ''Basic:'' \<noteq> ''Basic ''"
    by code_simp
  then show "\<not> authenticateRequest proxy (withAuth ''Basic:YWRtaW46cGFzc3dvcmQxMjM='' getExample)"
    by (rule scheme_prefix_exact[THEN conjunct2, THEN conjunct1, THEN spec, THEN spec, THEN mp])
next
  have "Get (Header (withAuth ''Basic  YWRtaW46cGFzc3dvcmQxMjM='' getExample))
           ''Proxy-Authorization'' = ''Basic  '' @ ''YWRtaW46cGFzc3dvcmQxMjM=''"
    by code_simp
  then show "\<not> authenticateRequest proxy (withAuth ''Basic  YWRtaW46cGFzc3dvcmQxMjM='' getExample)"
    by (rule scheme_prefix_exact[THEN conjunct2, THEN conjunct2, THEN conjunct1, THEN spec, THEN mp])
qed

section \<open>The response writer and the header copy\<close>

lemma canonical_known:
  "CanonicalMIMEHeaderKey ''Proxy-Authorization'' = ''Proxy-Authorization''"
  "CanonicalMIMEHeaderKey ''Proxy-Connection'' = ''Proxy-Connection''"
  "CanonicalMIMEHeaderKey ''Proxy-Authenticate'' = ''Proxy-Authenticate''"
  "CanonicalMIMEHeaderKey ''Content-Length'' = ''Content-Length''"
  "CanonicalMIMEHeaderKey ''Content-Type'' = ''Content-Type''"
  "CanonicalMIMEHeaderKey ''X-Content-Type-Options'' = ''X-Content-Type-Options''"
  by code_simp+

lemma status_values:
  "final_status StatusOK" "final_status StatusProxyAuthRequired"
  "final_status StatusInternalServerError" "final_status StatusBadGateway"
  by (simp_all add: final_status_def StatusOK_def StatusProxyAuthRequired_def
      StatusInternalServerError_def StatusBadGateway_def)

lemma body_statuses:
  "bodyAllowedForStatus StatusOK" "bodyAllowedForStatus StatusProxyAuthRequired"
  "bodyAllowedForStatus StatusInternalServerError" "bodyAllowedForStatus StatusBadGateway"
  by (simp_all add: bodyAllowedForStatus_def StatusOK_def StatusProxyAuthRequired_def
      StatusInternalServerError_def StatusBadGateway_def)

lemma WriteHeader_first:
  "sent w = None \<Longrightarrow> final_status code \<Longrightarrow>
     WriteHeader w code = Some (w\<lparr>sent := Some (code, hdr w)\<rparr>)"
  by (auto simp: WriteHeader_def final_status_def StatusSwitchingProtocols_def)

lemma WriteHeader_again: "sent w \<noteq> None \<Longrightarrow> WriteHeader w code = Some w"
  by (simp add: WriteHeader_def)

text \<open>The header map after \<^verbatim>\<open>http.Error\<close> has edited it.\<close>

lemma Error_first:
  "sent w = None \<Longrightarrow> final_status code \<Longrightarrow> bodyAllowedForStatus code \<Longrightarrow>
     Error w msg code =
       Some (w\<lparr>hdr := ((hdr w)(''Content-Length'' := None))
                      (''Content-Type'' \<mapsto> [''text/plain; charset=utf-8''],
                       ''X-Content-Type-Options'' \<mapsto> [''nosniff'']),
              sent := Some (code, ((hdr w)(''Content-Length'' := None))
                      (''Content-Type'' \<mapsto> [''text/plain; charset=utf-8''],
                       ''X-Content-Type-Options'' \<mapsto> [''nosniff''])),
              written := written w @ msg @ [CHR 0x0A]\<rparr>)"
  by (simp add: Error_def Let_def WriteHeader_first Write_def Del_def Set_header_def
      canonical_known)

lemma Error_again:
  "sent w = Some (status, h) \<Longrightarrow> bodyAllowedForStatus status \<Longrightarrow>
     Error w msg code =
       Some (w\<lparr>hdr := ((hdr w)(''Content-Length'' := None))
                      (''Content-Type'' \<mapsto> [''text/plain; charset=utf-8''],
                       ''X-Content-Type-Options'' \<mapsto> [''nosniff'']),
              written := written w @ msg @ [CHR 0x0A]\<rparr>)"
  by (simp add: Error_def Let_def WriteHeader_again Write_def Del_def Set_header_def
      canonical_known)

lemma handleHTTP_denied:
  "\<not> authenticateRequest ps r \<Longrightarrow>
     handleHTTP ps env w r =
       finish w
         (Error (w\<lparr>hdr := Set_header (hdr w) ''Proxy-Authenticate'' challenge\<rparr>)
            ''Proxy Authentication Required'' StatusProxyAuthRequired)
         [EvError ''Proxy Authentication Required'' StatusProxyAuthRequired]"
  by (simp add: handleHTTP_def)

lemma handleHTTPS_denied:
  "\<not> authenticateRequest ps r \<Longrightarrow>
     handleHTTPS ps env w r =
       finish w
         (Error (w\<lparr>hdr := Set_header (hdr w) ''Proxy-Authenticate'' challenge\<rparr>)
            ''Proxy Authentication Required'' StatusProxyAuthRequired)
         [EvError ''Proxy Authentication Required'' StatusProxyAuthRequired]"
  by (simp add: handleHTTPS_def)

lemma denied_fresh:
  "finish (freshWriter hj)
     (Error ((freshWriter hj)\<lparr>hdr := Set_header (hdr (freshWriter hj)) ''Proxy-Authenticate'' challenge\<rparr>)
        ''Proxy Authentication Required'' StatusProxyAuthRequired)
     [EvError ''Proxy Authentication Required'' StatusProxyAuthRequired]
   = \<lparr>writer =
        \<lparr>hdr = [''Proxy-Authenticate'' \<mapsto> [challenge],
                ''Content-Type'' \<mapsto> [''text/plain; charset=utf-8''],
                ''X-Content-Type-Options'' \<mapsto> [''nosniff'']],
         sent = Some (StatusProxyAuthRequired,
                [''Proxy-Authenticate'' \<mapsto> [challenge],
                 ''Content-Type'' \<mapsto> [''text/plain; charset=utf-8''],
                 ''X-Content-Type-Options'' \<mapsto> [''nosniff'']]),
         informational = [], written = ''Proxy Authentication Required'' @ [CHR 0x0A],
         hijacker = hj\<rparr>,
      events = [EvError ''Proxy Authentication Required'' StatusProxyAuthRequired],
      panicked = False\<rparr>"
  by (simp add: finish_def Error_first status_values body_statuses freshWriter_def
      Set_header_def canonical_known fun_upd_twist)

lemma denied_outcome_reading:
  assumes "out = finish (freshWriter hj)
     (Error ((freshWriter hj)\<lparr>hdr := Set_header (hdr (freshWriter hj)) ''Proxy-Authenticate'' challenge\<rparr>)
        ''Proxy Authentication Required'' StatusProxyAuthRequired)
     [EvError ''Proxy Authentication Required'' StatusProxyAuthRequired]"
  shows "sent_status (writer out) = Some StatusProxyAuthRequired
       \<and> sent_header (writer out) =
            [''Proxy-Authenticate'' \<mapsto> [challenge],
             ''Content-Type'' \<mapsto> [''text/plain; charset=utf-8''],
             ''X-Content-Type-Options'' \<mapsto> [''nosniff'']]
       \<and> Get (sent_header (writer out)) ''Proxy-Authenticate'' = challenge
       \<and> written (writer out) = ''Proxy Authentication Required'' @ [CHR 0x0A]
       \<and> events out = [EvError ''Proxy Authentication Required'' StatusProxyAuthRequired]
       \<and> outbound_attempts (events out) = []
       \<and> \<not> panicked out"
  unfolding assms denied_fresh
  by (simp add: sent_status_def sent_header_def outbound_attempts_def Get_def lookup_def
      canonical_known)

lemma handleHTTPS_dial_failed:
  "authenticateRequest ps r \<Longrightarrow> net_DialTimeout env ''tcp'' (Host r) 30 = Some e \<Longrightarrow>
     handleHTTPS ps env w r =
       finish w (Error w ''Error connecting to destination'' StatusBadGateway)
         [EvDial ''tcp'' (Host r) 30 (Some e),
          EvError ''Error connecting to destination'' StatusBadGateway]"
  by (simp add: handleHTTPS_def)

lemma handleHTTP_do_failed:
  "authenticateRequest ps r \<Longrightarrow> proxyRequest env r = Inr q \<Longrightarrow>
   client_Do env \<lparr>Timeout = 30\<rparr> q = Inl e \<Longrightarrow>
     handleHTTP ps env w r =
       finish w (Error w ''Error making proxy request'' StatusBadGateway)
         [EvDo \<lparr>Timeout = 30\<rparr> q (Some e),
          EvError ''Error making proxy request'' StatusBadGateway]"
  by (simp add: handleHTTP_def)

lemma finish_Error_fresh:
  "final_status code \<Longrightarrow> bodyAllowedForStatus code \<Longrightarrow>
   finish (freshWriter hj) (Error (freshWriter hj) msg code) evs =
     \<lparr>writer =
        \<lparr>hdr = [''Content-Type'' \<mapsto> [''text/plain; charset=utf-8''],
                ''X-Content-Type-Options'' \<mapsto> [''nosniff'']],
         sent = Some (code,
                [''Content-Type'' \<mapsto> [''text/plain; charset=utf-8''],
                 ''X-Content-Type-Options'' \<mapsto> [''nosniff'']]),
         informational = [], written = msg @ [CHR 0x0A], hijacker = hj\<rparr>,
      events = evs, panicked = False\<rparr>"
  by (simp add: finish_def Error_first freshWriter_def)

lemma handleHTTPS_connected:
  "authenticateRequest ps r \<Longrightarrow> net_DialTimeout env ''tcp'' (Host r) 30 = None \<Longrightarrow>
   handleHTTPS ps env (freshWriter hj) r =
     (case hj of
        None \<Rightarrow>
          \<lparr>writer =
             \<lparr>hdr = [''Content-Type'' \<mapsto> [''text/plain; charset=utf-8''],
                     ''X-Content-Type-Options'' \<mapsto> [''nosniff'']],
              sent = Some (StatusOK, Map.empty), informational = [],
              written = ''Hijacking not supported'' @ [CHR 0x0A], hijacker = hj\<rparr>,
           events = [EvDial ''tcp'' (Host r) 30 None, EvWriteHeader StatusOK,
                     EvAssertHijacker,
                     EvError ''Hijacking not supported'' StatusInternalServerError,
                     EvClose DestConn],
           panicked = False\<rparr>
      | Some (Some e) \<Rightarrow>
          \<lparr>writer =
             \<lparr>hdr = [''Content-Type'' \<mapsto> [''text/plain; charset=utf-8''],
                     ''X-Content-Type-Options'' \<mapsto> [''nosniff'']],
              sent = Some (StatusOK, Map.empty), informational = [],
              written = ''Error hijacking connection'' @ [CHR 0x0A], hijacker = hj\<rparr>,
           events = [EvDial ''tcp'' (Host r) 30 None, EvWriteHeader StatusOK,
                     EvAssertHijacker, EvHijack (Some e),
                     EvError ''Error hijacking connection'' StatusInternalServerError,
                     EvClose DestConn],
           panicked = False\<rparr>
      | Some None \<Rightarrow>
          \<lparr>writer =
             \<lparr>hdr = Map.empty, sent = Some (StatusOK, Map.empty), informational = [],
              written = [], hijacker = hj\<rparr>,
           events = [EvDial ''tcp'' (Host r) 30 None, EvWriteHeader StatusOK,
                     EvAssertHijacker, EvHijack None,
                     EvGoCopy DestConn ClientConn, EvCopy ClientConn DestConn,
                     EvClose ClientConn, EvClose DestConn],
           panicked = False\<rparr>)"
  by (simp add: handleHTTPS_def WriteHeader_first status_values body_statuses
      freshWriter_def finish_def Error_again split: option.splits)

lemma lookup_Add:
  "lookup (Add h name v) k =
     (if k = CanonicalMIMEHeaderKey name then lookup h k @ [v] else lookup h k)"
  by (simp add: Add_def Let_def lookup_def)

lemma lookup_add_values:
  "lookup (add_values name vs dst) k =
     (if k = CanonicalMIMEHeaderKey name then lookup dst k @ vs else lookup dst k)"
  by (induction vs arbitrary: dst) (simp_all add: lookup_Add)

lemma lookup_copy_header:
  "distinct ks \<Longrightarrow> \<forall>k \<in> set ks. CanonicalMIMEHeaderKey k = k \<Longrightarrow>
     lookup (copy_header ks src dst) k =
       lookup dst k @ (if k \<in> set ks then lookup src k else [])"
proof (induction ks arbitrary: dst)
  case Nil
  then show ?case by simp
next
  case (Cons name names)
  then show ?case by (auto simp: lookup_add_values)
qed

lemma lookup_outside_dom: "k \<notin> dom h \<Longrightarrow> lookup h k = []"
  by (auto simp: lookup_def split: option.splits)

lemma lookup_copy_all:
  assumes "enumerates ks src" and "canonical_keys src"
  shows "lookup (copy_header ks src dst) k = lookup dst k @ lookup src k"
proof -
  from assms have d: "distinct ks" and s: "set ks = dom src"
    by (simp_all add: enumerates_def)
  from assms s have c: "\<forall>k \<in> set ks. CanonicalMIMEHeaderKey k = k"
    by (simp add: canonical_keys_def)
  show ?thesis
    using lookup_copy_header[OF d c, of src dst k] s
    by (simp add: lookup_outside_dom)
qed

lemma lookup_Del:
  "lookup (Del h key) k = (if k = CanonicalMIMEHeaderKey key then [] else lookup h k)"
  by (simp add: Del_def lookup_def)

lemma canonical_keys_Del: "canonical_keys h \<Longrightarrow> canonical_keys (Del h key)"
  by (auto simp: canonical_keys_def Del_def split: if_splits)

lemma lookup_empty: "lookup Map.empty k = []"
  by (simp add: lookup_def)

lemma NewRequest_fields:
  "NewRequest env m url b = Inr q \<Longrightarrow> m \<noteq> [] \<Longrightarrow>
     Method q = m
   \<and> (\<exists>u. url_Parse env url = Some u
          \<and> URL q = u\<lparr>URLHost := removeEmptyPort (URLHost u)\<rparr>)
   \<and> Body q = b \<and> Header q = Map.empty"
  by (auto simp: NewRequest_def Let_def split: if_splits option.splits)

lemma NewRequest_fails:
  "NewRequest env m url b = Inl e \<Longrightarrow> validMethod m \<Longrightarrow> url_Parse env url = None"
  by (auto simp: NewRequest_def Let_def validMethod_def split: if_splits option.splits)

lemma proxyRequest_fields:
  assumes q: "proxyRequest env r = Inr q"
    and m: "validMethod (Method r)"
    and ck: "canonical_keys (Header r)"
    and en: "enumerates
         (range_order env (Del (Del (Header r) ''Proxy-Authorization'') ''Proxy-Connection''))
         (Del (Del (Header r) ''Proxy-Authorization'') ''Proxy-Connection'')"
  shows "Method q = Method r
       \<and> (\<exists>u. url_Parse env (url_String env (URL r)) = Some u
              \<and> URL q = u\<lparr>URLHost := removeEmptyPort (URLHost u)\<rparr>)
       \<and> Body q = Body r
       \<and> (\<forall>k. lookup (Header q) k =
             (if k = ''Proxy-Authorization'' \<or> k = ''Proxy-Connection'' then []
              else lookup (Header r) k))"
proof -
  from q obtain q0 where
    n: "NewRequest env (Method r) (url_String env (URL r)) (Body r) = Inr q0"
    and q': "q = q0\<lparr>Header := copy_header
         (range_order env (Del (Del (Header r) ''Proxy-Authorization'') ''Proxy-Connection''))
         (Del (Del (Header r) ''Proxy-Authorization'') ''Proxy-Connection'') (Header q0)\<rparr>"
    by (auto simp: proxyRequest_def Let_def split: sum.splits)
  from m have ne: "Method r \<noteq> []" by (simp add: validMethod_def)
  note f = NewRequest_fields[OF n ne]
  have ck': "canonical_keys (Del (Del (Header r) ''Proxy-Authorization'') ''Proxy-Connection'')"
    using ck by (simp add: canonical_keys_Del)
  have "\<forall>k. lookup (Header q) k =
             (if k = ''Proxy-Authorization'' \<or> k = ''Proxy-Connection'' then []
              else lookup (Header r) k)"
    using f by (simp add: q' lookup_copy_all[OF en ck'] lookup_empty lookup_Del canonical_known)
  with f q' show ?thesis by simp
qed

lemma handleHTTP_attempts:
  "authenticateRequest ps r \<Longrightarrow> proxyRequest env r = Inr q \<Longrightarrow>
     \<exists>res. outbound_attempts (events (handleHTTP ps env w r)) = [EvDo \<lparr>Timeout = 30\<rparr> q res]"
  by (auto simp: handleHTTP_def Let_def finish_def outbound_attempts_def
      split: sum.splits option.splits prod.splits)

lemma handleHTTP_no_request:
  "authenticateRequest ps r \<Longrightarrow> proxyRequest env r = Inl e \<Longrightarrow>
     outbound_attempts (events (handleHTTP ps env w r)) = []"
  by (auto simp: handleHTTP_def Let_def finish_def outbound_attempts_def
      split: sum.splits option.splits prod.splits)

lemma proxyRequest_fails:
  "proxyRequest env r = Inl e \<Longrightarrow> validMethod (Method r) \<Longrightarrow>
     url_Parse env (url_String env (URL r)) = None"
  by (auto simp: proxyRequest_def Let_def split: sum.splits dest: NewRequest_fails)

lemma handleHTTP_answered:
  assumes "authenticateRequest ps r" and "proxyRequest env r = Inr q"
    and "client_Do env \<lparr>Timeout = 30\<rparr> q = Inr resp"
    and "final_status (StatusCode resp)"
  shows "handleHTTP ps env (freshWriter hj) r =
     \<lparr>writer =
        \<lparr>hdr = copy_header (range_order env (RespHeader resp)) (RespHeader resp) Map.empty,
         sent = Some (StatusCode resp,
                  copy_header (range_order env (RespHeader resp)) (RespHeader resp) Map.empty),
         informational = [],
         written = (if bodyAllowedForStatus (StatusCode resp) then avail (RespBody resp)
                    else []),
         hijacker = hj\<rparr>,
      events = [EvDo \<lparr>Timeout = 30\<rparr> q None, EvWriteHeader (StatusCode resp),
                EvCopy ResponseWriterSink RespBodyStream]
               @ (if fault (RespBody resp) \<noteq> None
                     \<or> (avail (RespBody resp) \<noteq> []
                         \<and> \<not> bodyAllowedForStatus (StatusCode resp))
                  then [EvLog ''Error copying response body''] else [])
               @ [EvClose RespBodyStream],
      panicked = False\<rparr>"
  using assms
  by (auto simp: handleHTTP_def Let_def WriteHeader_first freshWriter_def Copy_def Write_def
      split: option.splits)


lemma canonical_examples:
  "CanonicalMIMEHeaderKey ''Accept'' = ''Accept''"
  "CanonicalMIMEHeaderKey ''X-Custom'' = ''X-Custom''"
  "CanonicalMIMEHeaderKey ''Set-Cookie'' = ''Set-Cookie''"
  by code_simp+

lemma postExample_wellformed:
  "authenticateRequest proxy postExample"
  "validMethod (Method postExample)"
  "canonical_keys (Header postExample)"
  "enumerates
     (range_order reachable
        (Del (Del (Header postExample) ''Proxy-Authorization'') ''Proxy-Connection''))
     (Del (Del (Header postExample) ''Proxy-Authorization'') ''Proxy-Connection'')"
proof -
  show "authenticateRequest proxy postExample" by code_simp
  show "validMethod (Method postExample)" by code_simp
  show "canonical_keys (Header postExample)"
    by (simp add: canonical_keys_def postExample_def canonical_known canonical_examples)
  show "enumerates
     (range_order reachable
        (Del (Del (Header postExample) ''Proxy-Authorization'') ''Proxy-Connection''))
     (Del (Del (Header postExample) ''Proxy-Authorization'') ''Proxy-Connection'')"
    by (auto simp: enumerates_def reachable_def postExample_def Del_def canonical_known
        split: if_splits)
qed

lemma proxyRequest_made:
  "validMethod (Method r) \<Longrightarrow> url_Parse env (url_String env (URL r)) = Some u \<Longrightarrow>
     \<exists>q. proxyRequest env r = Inr q"
  by (simp add: proxyRequest_def NewRequest_def Let_def validMethod_def)

lemma examples_parse:
  "url_Parse reachable (url_String reachable (URL postExample)) = Some (URL postExample)"
  "url_Parse reachable (url_String reachable (URL emptyPortExample))
     = Some (URL emptyPortExample)"
  "url_Parse oddUpstream (url_String oddUpstream (URL postExample)) = Some (URL postExample)"
  "url_Parse unreachable (url_String unreachable (URL (withAuth validAuth getExample)))
     = Some (URL (withAuth validAuth getExample))"
  by code_simp+

lemma postExample_outbound: "\<exists>q. proxyRequest reachable postExample = Inr q"
  using postExample_wellformed(2) examples_parse(1) by (rule proxyRequest_made)

lemma emptyPortExample_wellformed:
  "authenticateRequest proxy emptyPortExample"
  "validMethod (Method emptyPortExample)"
  "canonical_keys (Header emptyPortExample)"
  "enumerates
     (range_order reachable
        (Del (Del (Header emptyPortExample) ''Proxy-Authorization'') ''Proxy-Connection''))
     (Del (Del (Header emptyPortExample) ''Proxy-Authorization'') ''Proxy-Connection'')"
proof -
  have h: "Header emptyPortExample = Header postExample"
    by (simp add: emptyPortExample_def)
  show "authenticateRequest proxy emptyPortExample" by code_simp
  show "validMethod (Method emptyPortExample)" by code_simp
  show "canonical_keys (Header emptyPortExample)"
    unfolding h by (rule postExample_wellformed(3))
  show "enumerates
     (range_order reachable
        (Del (Del (Header emptyPortExample) ''Proxy-Authorization'') ''Proxy-Connection''))
     (Del (Del (Header emptyPortExample) ''Proxy-Authorization'') ''Proxy-Connection'')"
    unfolding h by (rule postExample_wellformed(4))
qed

lemma upstreamResponse_wellformed:
  "final_status (StatusCode upstreamResponse)"
  "canonical_keys (RespHeader upstreamResponse)"
  "enumerates (range_order reachable (RespHeader upstreamResponse)) (RespHeader upstreamResponse)"
proof -
  show "final_status (StatusCode upstreamResponse)"
    by (simp add: final_status_def upstreamResponse_def)
  show "canonical_keys (RespHeader upstreamResponse)"
    by (simp add: canonical_keys_def upstreamResponse_def canonical_known canonical_examples)
  show "enumerates (range_order reachable (RespHeader upstreamResponse)) (RespHeader upstreamResponse)"
    by (auto simp: enumerates_def reachable_def upstreamResponse_def split: if_splits)
qed

section \<open>The relays\<close>

text \<open>
  C2. A request that \<^verbatim>\<open>authenticateRequest\<close> rejects is answered, by the plain relay
  and by the tunnel relay alike and so for every method, with status 407, the header
  \<^verbatim>\<open>Proxy-Authenticate\<close> naming the realm and a plain-text line as the body; the
  handler makes no outbound request and no dial. The writer is the fresh one the server
  hands to a handler.
\<close>

theorem unauthenticated_short_circuit:
  assumes "\<not> authenticateRequest ps r"
  shows "(\<forall>out \<in> {handleHTTP ps env (freshWriter hj) r, handleHTTPS ps env (freshWriter hj) r}.
           sent_status (writer out) = Some StatusProxyAuthRequired
         \<and> sent_header (writer out) =
              [''Proxy-Authenticate'' \<mapsto> [challenge],
               ''Content-Type'' \<mapsto> [''text/plain; charset=utf-8''],
               ''X-Content-Type-Options'' \<mapsto> [''nosniff'']]
         \<and> Get (sent_header (writer out)) ''Proxy-Authenticate'' = challenge
         \<and> written (writer out) = ''Proxy Authentication Required'' @ [CHR 0x0A]
         \<and> events out = [EvError ''Proxy Authentication Required'' StatusProxyAuthRequired]
         \<and> outbound_attempts (events out) = []
         \<and> \<not> panicked out)
       \<and> writer (ServeHTTP ps env (freshWriter hj) r) = writer (handleHTTP ps env (freshWriter hj) r)
       \<and> outbound_attempts (events (ServeHTTP ps env (freshWriter hj) r)) = []
       \<and> challenge = ''Basic realm=\"Proxy Server\"''
       \<and> StatusProxyAuthRequired = 407"
proof -
  have a: "handleHTTP ps env (freshWriter hj) r = finish (freshWriter hj)
     (Error ((freshWriter hj)\<lparr>hdr := Set_header (hdr (freshWriter hj)) ''Proxy-Authenticate'' challenge\<rparr>)
        ''Proxy Authentication Required'' StatusProxyAuthRequired)
     [EvError ''Proxy Authentication Required'' StatusProxyAuthRequired]"
    using assms by (rule handleHTTP_denied)
  have b: "handleHTTPS ps env (freshWriter hj) r = finish (freshWriter hj)
     (Error ((freshWriter hj)\<lparr>hdr := Set_header (hdr (freshWriter hj)) ''Proxy-Authenticate'' challenge\<rparr>)
        ''Proxy Authentication Required'' StatusProxyAuthRequired)
     [EvError ''Proxy Authentication Required'' StatusProxyAuthRequired]"
    using assms by (rule handleHTTPS_denied)
  note ra = denied_outcome_reading[OF a]
  note rb = denied_outcome_reading[OF b]
  have s1: "writer (ServeHTTP ps env (freshWriter hj) r) = writer (handleHTTP ps env (freshWriter hj) r)"
    unfolding ServeHTTP_def Let_def a b by simp
  have s2: "outbound_attempts (events (ServeHTTP ps env (freshWriter hj) r)) = []"
    unfolding ServeHTTP_def Let_def a b denied_fresh by (simp add: outbound_attempts_def)
  have c: "challenge = ''Basic realm=\"Proxy Server\"''" by (simp add: challenge_def)
  have d: "StatusProxyAuthRequired = 407" by (simp add: StatusProxyAuthRequired_def)
  from ra rb have "\<forall>out \<in> {handleHTTP ps env (freshWriter hj) r, handleHTTPS ps env (freshWriter hj) r}.
           sent_status (writer out) = Some StatusProxyAuthRequired
         \<and> sent_header (writer out) =
              [''Proxy-Authenticate'' \<mapsto> [challenge],
               ''Content-Type'' \<mapsto> [''text/plain; charset=utf-8''],
               ''X-Content-Type-Options'' \<mapsto> [''nosniff'']]
         \<and> Get (sent_header (writer out)) ''Proxy-Authenticate'' = challenge
         \<and> written (writer out) = ''Proxy Authentication Required'' @ [CHR 0x0A]
         \<and> events out = [EvError ''Proxy Authentication Required'' StatusProxyAuthRequired]
         \<and> outbound_attempts (events out) = []
         \<and> \<not> panicked out"
    by blast
  with s1 s2 c d show ?thesis by blast
qed

theorem unauthenticated_short_circuit_witness:
  "sent_status (writer (handleHTTP proxy unreachable (freshWriter None) getExample)) = Some 407
   \<and> sent_status (writer (handleHTTPS proxy reachable (freshWriter (Some None))
        (withAuth ''Basic d3Jvbmc6Y3JlZGVudGlhbHM='' connectExample))) = Some 407
   \<and> outbound_attempts (events (handleHTTPS proxy reachable (freshWriter (Some None))
        (withAuth ''Basic d3Jvbmc6Y3JlZGVudGlhbHM='' connectExample))) = []"
proof -
  have 1: "\<not> authenticateRequest proxy getExample" by code_simp
  have 2: "\<not> authenticateRequest proxy (withAuth ''Basic d3Jvbmc6Y3JlZGVudGlhbHM='' connectExample)"
    by code_simp
  have a: "sent_status (writer (handleHTTP proxy unreachable (freshWriter None) getExample))
             = Some StatusProxyAuthRequired"
    using unauthenticated_short_circuit[OF 1, of unreachable None] by blast
  have b: "sent_status (writer (handleHTTPS proxy reachable (freshWriter (Some None))
        (withAuth ''Basic d3Jvbmc6Y3JlZGVudGlhbHM='' connectExample))) = Some StatusProxyAuthRequired
     \<and> outbound_attempts (events (handleHTTPS proxy reachable (freshWriter (Some None))
        (withAuth ''Basic d3Jvbmc6Y3JlZGVudGlhbHM='' connectExample))) = []"
    using unauthenticated_short_circuit[OF 2, of reachable "Some None"] by blast
  from a b show ?thesis by (simp add: StatusProxyAuthRequired_def)
qed

text \<open>
  C3. For an authenticated request of the plain relay, as the HTTP server delivers it
  (a method that is a token, header names in canonical form), the outbound request has
  the method and the body stream of the inbound one, and under every name the values
  of the inbound header in their order, except that \<^verbatim>\<open>Proxy-Authorization\<close> and
  \<^verbatim>\<open>Proxy-Connection\<close> have none. Its URL is the one \<^verbatim>\<open>http.NewRequest\<close> reads from
  the text of the inbound URL, with an empty port removed from the host: the inbound URL
  itself when its text parses back to it and its host has no empty port. It is the only
  request the handler sends; it sends none when the text does not parse. This holds for
  every order in which the \<^verbatim>\<open>range\<close> loop visits the names.
\<close>

theorem outbound_request_faithful:
  assumes "authenticateRequest ps r"
    and "validMethod (Method r)"
    and "canonical_keys (Header r)"
    and "enumerates
         (range_order env (Del (Del (Header r) ''Proxy-Authorization'') ''Proxy-Connection''))
         (Del (Del (Header r) ''Proxy-Authorization'') ''Proxy-Connection'')"
  shows "(case proxyRequest env r of
            Inl e \<Rightarrow>
              url_Parse env (url_String env (URL r)) = None
            \<and> outbound_attempts (events (handleHTTP ps env w r)) = []
          | Inr q \<Rightarrow>
              Method q = Method r
            \<and> (\<exists>u. url_Parse env (url_String env (URL r)) = Some u
                   \<and> URL q = u\<lparr>URLHost := removeEmptyPort (URLHost u)\<rparr>)
            \<and> (url_Parse env (url_String env (URL r)) = Some (URL r)
                 \<and> removeEmptyPort (URLHost (URL r)) = URLHost (URL r)
                 \<longrightarrow> URL q = URL r)
            \<and> Body q = Body r
            \<and> (\<forall>k. lookup (Header q) k =
                  (if k = ''Proxy-Authorization'' \<or> k = ''Proxy-Connection'' then []
                   else lookup (Header r) k))
            \<and> (\<exists>res. outbound_attempts (events (handleHTTP ps env w r))
                        = [EvDo \<lparr>Timeout = 30\<rparr> q res]))"
proof (cases "proxyRequest env r")
  case (Inl e)
  with assms show ?thesis
    by (simp add: proxyRequest_fails handleHTTP_no_request)
next
  case (Inr q)
  note f = proxyRequest_fields[OF Inr assms(2,3,4)]
  from f have same: "url_Parse env (url_String env (URL r)) = Some (URL r)
                 \<and> removeEmptyPort (URLHost (URL r)) = URLHost (URL r)
                 \<longrightarrow> URL q = URL r"
    by auto
  from f same handleHTTP_attempts[OF assms(1) Inr, of w] Inr
  show ?thesis by simp
qed

theorem outbound_request_faithful_witness:
  "\<exists>q. proxyRequest reachable postExample = Inr q
      \<and> Method q = ''POST''
      \<and> URL q = \<lparr>Scheme = ''http'', URLHost = ''example.com'', Path = ''/api'', RawQuery = []\<rparr>
      \<and> Body q = ReadCloser ''{\"test\": \"data\"}'' None
      \<and> lookup (Header q) ''Proxy-Authorization'' = []
      \<and> lookup (Header q) ''Proxy-Connection'' = []
      \<and> lookup (Header q) ''Accept'' = [''text/html'', ''application/json'']
      \<and> lookup (Header q) ''X-Custom'' = [''CustomValue'']
      \<and> length (outbound_attempts (events (handleHTTP proxy reachable (freshWriter None) postExample))) = 1"
proof -
  from postExample_outbound obtain q where q: "proxyRequest reachable postExample = Inr q" ..
  have t: "Method q = Method postExample
            \<and> (url_Parse reachable (url_String reachable (URL postExample)) = Some (URL postExample)
                 \<and> removeEmptyPort (URLHost (URL postExample)) = URLHost (URL postExample)
                 \<longrightarrow> URL q = URL postExample)
            \<and> Body q = Body postExample
            \<and> (\<forall>k. lookup (Header q) k =
                  (if k = ''Proxy-Authorization'' \<or> k = ''Proxy-Connection'' then []
                   else lookup (Header postExample) k))
            \<and> (\<exists>res. outbound_attempts (events (handleHTTP proxy reachable (freshWriter None) postExample))
                        = [EvDo \<lparr>Timeout = 30\<rparr> q res])"
    using outbound_request_faithful[OF postExample_wellformed, of "freshWriter None"]
    by (simp add: q)
  have p: "removeEmptyPort (URLHost (URL postExample)) = URLHost (URL postExample)"
    by code_simp
  have f: "Method postExample = ''POST''"
    "URL postExample = \<lparr>Scheme = ''http'', URLHost = ''example.com'', Path = ''/api'', RawQuery = []\<rparr>"
    "Body postExample = ReadCloser ''{\"test\": \"data\"}'' None"
    "lookup (Header postExample) ''Accept'' = [''text/html'', ''application/json'']"
    "lookup (Header postExample) ''X-Custom'' = [''CustomValue'']"
    by (simp_all add: postExample_def lookup_def)
  from t examples_parse(1) p have u: "URL q = URL postExample" by blast
  from t u have 1: "Method q = ''POST''
      \<and> URL q = \<lparr>Scheme = ''http'', URLHost = ''example.com'', Path = ''/api'', RawQuery = []\<rparr>
      \<and> Body q = ReadCloser ''{\"test\": \"data\"}'' None"
    by (simp add: f)
  from t have l: "\<And>k. lookup (Header q) k =
                  (if k = ''Proxy-Authorization'' \<or> k = ''Proxy-Connection'' then []
                   else lookup (Header postExample) k)"
    by blast
  have 2: "lookup (Header q) ''Proxy-Authorization'' = []
      \<and> lookup (Header q) ''Proxy-Connection'' = []
      \<and> lookup (Header q) ''Accept'' = [''text/html'', ''application/json'']
      \<and> lookup (Header q) ''X-Custom'' = [''CustomValue'']"
    by (simp add: l f)
  from t have 3: "length (outbound_attempts (events (handleHTTP proxy reachable (freshWriter None) postExample))) = 1"
    by auto
  from q 1 2 3 show ?thesis by blast
qed

text \<open>
  The outbound URL is not always the inbound one: for \<^verbatim>\<open>http://example.com:/api?x=1\<close>
  the request that goes out is for \<^verbatim>\<open>http://example.com/api?x=1\<close>.
\<close>

theorem outbound_url_not_identical:
  "authenticateRequest proxy emptyPortExample
   \<and> url_String reachable (URL emptyPortExample) = ''http://example.com:/api?x=1''
   \<and> \<not> isl (proxyRequest reachable emptyPortExample)
   \<and> outbound_attempts (events (handleHTTP proxy reachable (freshWriter None) emptyPortExample))
        = [EvDo \<lparr>Timeout = 30\<rparr> (projr (proxyRequest reachable emptyPortExample)) None]
   \<and> URL (projr (proxyRequest reachable emptyPortExample)) \<noteq> URL emptyPortExample
   \<and> url_String reachable (URL (projr (proxyRequest reachable emptyPortExample)))
        = ''http://example.com/api?x=1''"
proof -
  have a: "authenticateRequest proxy emptyPortExample" by code_simp
  have s: "url_String reachable (URL emptyPortExample) = ''http://example.com:/api?x=1''"
    by code_simp
  from proxyRequest_made[OF emptyPortExample_wellformed(2) examples_parse(2)]
  obtain q where q: "proxyRequest reachable emptyPortExample = Inr q" ..
  from proxyRequest_fields[OF q emptyPortExample_wellformed(2,3,4)] examples_parse(2)
  have u: "URL q = (URL emptyPortExample)\<lparr>URLHost :=
             removeEmptyPort (URLHost (URL emptyPortExample))\<rparr>"
    by auto
  have r: "(URL emptyPortExample)\<lparr>URLHost := removeEmptyPort (URLHost (URL emptyPortExample))\<rparr>
            = \<lparr>Scheme = ''http'', URLHost = ''example.com'', Path = ''/api'', RawQuery = ''x=1''\<rparr>"
    by code_simp
  have e: "URL emptyPortExample
            = \<lparr>Scheme = ''http'', URLHost = ''example.com:'', Path = ''/api'', RawQuery = ''x=1''\<rparr>"
    by code_simp
  have t: "url_String reachable
             \<lparr>Scheme = ''http'', URLHost = ''example.com'', Path = ''/api'', RawQuery = ''x=1''\<rparr>
            = ''http://example.com/api?x=1''"
    by code_simp
  have d: "client_Do reachable \<lparr>Timeout = 30\<rparr> q = Inr upstreamResponse"
    by (simp add: reachable_def)
  have o: "outbound_attempts (events (handleHTTP proxy reachable (freshWriter None) emptyPortExample))
               = [EvDo \<lparr>Timeout = 30\<rparr> q None]"
    unfolding handleHTTP_answered[OF a q d upstreamResponse_wellformed(1)]
    by (simp add: outbound_attempts_def)
  from u r e have n: "URL q \<noteq> URL emptyPortExample" by simp
  from u r t have x: "url_String reachable (URL q) = ''http://example.com/api?x=1''" by simp
  from a s o n x show ?thesis by (simp add: q)
qed




text \<open>
  C6. When the target of an authenticated request cannot be reached, whatever the
  error (connection, name lookup, expiry of the 30 seconds), the client receives status
  502. The plain relay has sent its one outbound request, under a client timeout of 30
  seconds, and sends no other; the tunnel relay has dialled once, with a timeout of 30
  seconds, does not dial again and neither asks for nor performs the takeover. Neither
  relay closes a connection on this path: the handler writes the error response and
  returns, and the client connection stays with the HTTP server.
\<close>

theorem unreachable_target_bad_gateway:
  assumes "authenticateRequest ps r"
  shows "(\<forall>q e. proxyRequest env r = Inr q \<and> client_Do env \<lparr>Timeout = 30\<rparr> q = Inl e \<longrightarrow>
            (let out = handleHTTP ps env (freshWriter hj) r in
               sent_status (writer out) = Some StatusBadGateway
             \<and> written (writer out) = ''Error making proxy request'' @ [CHR 0x0A]
             \<and> events out = [EvDo \<lparr>Timeout = 30\<rparr> q (Some e),
                              EvError ''Error making proxy request'' StatusBadGateway]
             \<and> outbound_attempts (events out) = [EvDo \<lparr>Timeout = 30\<rparr> q (Some e)]
             \<and> (\<forall>c. EvClose c \<notin> set (events out))
             \<and> \<not> panicked out))
       \<and> (\<forall>e. net_DialTimeout env ''tcp'' (Host r) 30 = Some e \<longrightarrow>
            (let out = handleHTTPS ps env (freshWriter hj) r in
               sent_status (writer out) = Some StatusBadGateway
             \<and> written (writer out) = ''Error connecting to destination'' @ [CHR 0x0A]
             \<and> events out = [EvDial ''tcp'' (Host r) 30 (Some e),
                              EvError ''Error connecting to destination'' StatusBadGateway]
             \<and> outbound_attempts (events out) = [EvDial ''tcp'' (Host r) 30 (Some e)]
             \<and> EvAssertHijacker \<notin> set (events out)
             \<and> (\<forall>res. EvHijack res \<notin> set (events out))
             \<and> (\<forall>c. EvClose c \<notin> set (events out))
             \<and> \<not> panicked out))
       \<and> StatusBadGateway = 502"
proof (intro conjI allI impI)
  fix q e
  assume a: "proxyRequest env r = Inr q \<and> client_Do env \<lparr>Timeout = 30\<rparr> q = Inl e"
  have "handleHTTP ps env (freshWriter hj) r =
       finish (freshWriter hj) (Error (freshWriter hj) ''Error making proxy request'' StatusBadGateway)
         [EvDo \<lparr>Timeout = 30\<rparr> q (Some e),
          EvError ''Error making proxy request'' StatusBadGateway]"
    using assms a by (simp add: handleHTTP_do_failed)
  then show "let out = handleHTTP ps env (freshWriter hj) r in
               sent_status (writer out) = Some StatusBadGateway
             \<and> written (writer out) = ''Error making proxy request'' @ [CHR 0x0A]
             \<and> events out = [EvDo \<lparr>Timeout = 30\<rparr> q (Some e),
                              EvError ''Error making proxy request'' StatusBadGateway]
             \<and> outbound_attempts (events out) = [EvDo \<lparr>Timeout = 30\<rparr> q (Some e)]
             \<and> (\<forall>c. EvClose c \<notin> set (events out))
             \<and> \<not> panicked out"
    by (simp add: finish_Error_fresh status_values body_statuses Let_def sent_status_def
        outbound_attempts_def)
next
  fix e
  assume a: "net_DialTimeout env ''tcp'' (Host r) 30 = Some e"
  have "handleHTTPS ps env (freshWriter hj) r =
       finish (freshWriter hj) (Error (freshWriter hj) ''Error connecting to destination'' StatusBadGateway)
         [EvDial ''tcp'' (Host r) 30 (Some e),
          EvError ''Error connecting to destination'' StatusBadGateway]"
    using assms a by (simp add: handleHTTPS_dial_failed)
  then show "let out = handleHTTPS ps env (freshWriter hj) r in
               sent_status (writer out) = Some StatusBadGateway
             \<and> written (writer out) = ''Error connecting to destination'' @ [CHR 0x0A]
             \<and> events out = [EvDial ''tcp'' (Host r) 30 (Some e),
                              EvError ''Error connecting to destination'' StatusBadGateway]
             \<and> outbound_attempts (events out) = [EvDial ''tcp'' (Host r) 30 (Some e)]
             \<and> EvAssertHijacker \<notin> set (events out)
             \<and> (\<forall>res. EvHijack res \<notin> set (events out))
             \<and> (\<forall>c. EvClose c \<notin> set (events out))
             \<and> \<not> panicked out"
    by (simp add: finish_Error_fresh status_values body_statuses Let_def sent_status_def
        outbound_attempts_def)
next
  show "StatusBadGateway = 502" by (simp add: StatusBadGateway_def)
qed

theorem unreachable_target_bad_gateway_witness:
  "sent_status (writer (handleHTTPS proxy unreachable (freshWriter (Some None))
       (withAuth validAuth connectExample))) = Some 502
   \<and> outbound_attempts (events (handleHTTPS proxy unreachable (freshWriter (Some None))
       (withAuth validAuth connectExample)))
       = [EvDial ''tcp'' ''example.com:443'' 30 (Some LookupFailed)]
   \<and> sent_status (writer (handleHTTP proxy unreachable (freshWriter None)
       (withAuth validAuth getExample))) = Some 502
   \<and> length (outbound_attempts (events (handleHTTP proxy unreachable (freshWriter None)
       (withAuth validAuth getExample)))) = 1"
proof -
  have 1: "authenticateRequest proxy (withAuth validAuth connectExample)" by code_simp
  have 2: "net_DialTimeout unreachable ''tcp'' (Host (withAuth validAuth connectExample)) 30
             = Some LookupFailed"
    by code_simp
  have h: "Host (withAuth validAuth connectExample) = ''example.com:443''" by code_simp
  have a: "sent_status (writer (handleHTTPS proxy unreachable (freshWriter (Some None))
              (withAuth validAuth connectExample))) = Some StatusBadGateway
         \<and> outbound_attempts (events (handleHTTPS proxy unreachable (freshWriter (Some None))
              (withAuth validAuth connectExample)))
            = [EvDial ''tcp'' (Host (withAuth validAuth connectExample)) 30 (Some LookupFailed)]"
    using unreachable_target_bad_gateway[OF 1, of unreachable "Some None",
            THEN conjunct2, THEN conjunct1, THEN spec, THEN mp, OF 2]
    unfolding Let_def by blast
  have 3: "authenticateRequest proxy (withAuth validAuth getExample)" by code_simp
  have m: "validMethod (Method (withAuth validAuth getExample))" by code_simp
  from proxyRequest_made[OF m examples_parse(4)]
  obtain q where q: "proxyRequest unreachable (withAuth validAuth getExample) = Inr q" ..
  have 4: "client_Do unreachable \<lparr>Timeout = 30\<rparr> q = Inl LookupFailed"
    by (simp add: unreachable_def)
  have b: "sent_status (writer (handleHTTP proxy unreachable (freshWriter None)
              (withAuth validAuth getExample))) = Some StatusBadGateway
         \<and> outbound_attempts (events (handleHTTP proxy unreachable (freshWriter None)
              (withAuth validAuth getExample))) = [EvDo \<lparr>Timeout = 30\<rparr> q (Some LookupFailed)]"
    using unreachable_target_bad_gateway[OF 3, of unreachable None,
            THEN conjunct1, THEN spec, THEN spec, THEN mp, OF conjI, OF q 4]
    unfolding Let_def by blast
  from a b h show ?thesis by (simp add: StatusBadGateway_def)
qed

text \<open>
  On the failed dial no connection is closed: the handler's only actions are the dial
  and the error response.
\<close>

theorem failed_dial_closes_nothing:
  "authenticateRequest proxy (withAuth validAuth connectExample)
   \<and> net_DialTimeout unreachable ''tcp'' (Host (withAuth validAuth connectExample)) 30
        = Some LookupFailed
   \<and> events (handleHTTPS proxy unreachable (freshWriter (Some None))
        (withAuth validAuth connectExample))
        = [EvDial ''tcp'' ''example.com:443'' 30 (Some LookupFailed),
           EvError ''Error connecting to destination'' 502]
   \<and> EvClose ClientConn \<notin> set (events (handleHTTPS proxy unreachable (freshWriter (Some None))
        (withAuth validAuth connectExample)))
   \<and> EvClose DestConn \<notin> set (events (handleHTTPS proxy unreachable (freshWriter (Some None))
        (withAuth validAuth connectExample)))"
proof -
  have 1: "authenticateRequest proxy (withAuth validAuth connectExample)" by code_simp
  have 2: "net_DialTimeout unreachable ''tcp'' (Host (withAuth validAuth connectExample)) 30
             = Some LookupFailed"
    by code_simp
  have h: "Host (withAuth validAuth connectExample) = ''example.com:443''" by code_simp
  have e: "events (handleHTTPS proxy unreachable (freshWriter (Some None))
        (withAuth validAuth connectExample))
        = [EvDial ''tcp'' ''example.com:443'' 30 (Some LookupFailed),
           EvError ''Error connecting to destination'' 502]"
    unfolding handleHTTPS_dial_failed[OF 1 2] h
    by (simp add: finish_def StatusBadGateway_def split: option.splits)
  have c: "EvClose ClientConn \<notin> set (events (handleHTTPS proxy unreachable (freshWriter (Some None))
        (withAuth validAuth connectExample)))
    \<and> EvClose DestConn \<notin> set (events (handleHTTPS proxy unreachable (freshWriter (Some None))
        (withAuth validAuth connectExample)))"
    unfolding e by simp
  from 1 2 e c show ?thesis by blast
qed

text \<open>
  C7. A tunnel request whose transport cannot be taken over is to be answered with
  status 500. The handler does call \<^verbatim>\<open>http.Error\<close> with 500, but only after
  \<^verbatim>\<open>w.WriteHeader(http.StatusOK)\<close>, and a second status is ignored: on a writer that
  is no \<^verbatim>\<open>http.Hijacker\<close>, an authenticated request whose dial succeeds leaves the
  client with status 200 and the text \<open>Hijacking not supported\<close> as the body.
\<close>

theorem takeover_unsupported_status:
  "sent_status (writer (handleHTTPS proxy reachable (freshWriter None)
       (withAuth validAuth connectExample))) = Some 200
   \<and> written (writer (handleHTTPS proxy reachable (freshWriter None)
       (withAuth validAuth connectExample))) = ''Hijacking not supported'' @ [CHR 0x0A]
   \<and> events (handleHTTPS proxy reachable (freshWriter None) (withAuth validAuth connectExample))
       = [EvDial ''tcp'' ''example.com:443'' 30 None, EvWriteHeader 200, EvAssertHijacker,
          EvError ''Hijacking not supported'' 500, EvClose DestConn]"
proof -
  have 1: "authenticateRequest proxy (withAuth validAuth connectExample)" by code_simp
  have 2: "net_DialTimeout reachable ''tcp'' (Host (withAuth validAuth connectExample)) 30 = None"
    by code_simp
  have h: "Host (withAuth validAuth connectExample) = ''example.com:443''" by code_simp
  show ?thesis
    unfolding handleHTTPS_connected[OF 1 2, of None] h
    by (simp add: sent_status_def StatusOK_def StatusInternalServerError_def)
qed

text \<open>
  C8. Two requests that both fail authentication, at whatever stage, get the same
  answer from \<^verbatim>\<open>authenticateRequest\<close> and leave the response writer in the same
  state (status, headers, body), whichever relay handles them and whatever the world
  outside looks like.
\<close>

theorem denials_indistinguishable:
  assumes "\<not> authenticateRequest ps r1" and "\<not> authenticateRequest ps r2"
  shows "authenticateRequest ps r1 = authenticateRequest ps r2
       \<and> writer (handleHTTP ps env1 w r1) = writer (handleHTTP ps env2 w r2)
       \<and> writer (handleHTTPS ps env1 w r1) = writer (handleHTTPS ps env2 w r2)
       \<and> writer (handleHTTP ps env1 w r1) = writer (handleHTTPS ps env2 w r2)
       \<and> writer (ServeHTTP ps env1 w r1) = writer (ServeHTTP ps env2 w r2)"
  using assms
  by (simp add: handleHTTP_denied handleHTTPS_denied ServeHTTP_def Let_def)

text \<open>
  Five requests that fail at the five stages: no header, another scheme, bad base64,
  no colon, a wrong password.
\<close>

theorem denials_indistinguishable_witness:
  "writer (ServeHTTP proxy unreachable (freshWriter None) getExample)
     = writer (ServeHTTP proxy reachable (freshWriter None) (withAuth ''Bearer token123'' connectExample))
   \<and> writer (ServeHTTP proxy reachable (freshWriter None) (withAuth ''Bearer token123'' connectExample))
     = writer (ServeHTTP proxy reachable (freshWriter None) (withAuth ''Basic invalid-base64'' getExample))
   \<and> writer (ServeHTTP proxy reachable (freshWriter None) (withAuth ''Basic invalid-base64'' getExample))
     = writer (ServeHTTP proxy unreachable (freshWriter None) (withAuth ''Basic YWRtaW5wYXNzd29yZA=='' connectExample))
   \<and> writer (ServeHTTP proxy unreachable (freshWriter None) (withAuth ''Basic YWRtaW5wYXNzd29yZA=='' connectExample))
     = writer (ServeHTTP proxy reachable (freshWriter None) (withAuth ''Basic YWRtaW46d3Jvbmc='' getExample))
   \<and> sent_status (writer (ServeHTTP proxy reachable (freshWriter None) (withAuth ''Basic YWRtaW46d3Jvbmc='' getExample)))
     = Some 407"
proof -
  have 1: "\<not> authenticateRequest proxy getExample" by code_simp
  have 2: "\<not> authenticateRequest proxy (withAuth ''Bearer token123'' connectExample)" by code_simp
  have 3: "\<not> authenticateRequest proxy (withAuth ''Basic invalid-base64'' getExample)" by code_simp
  have 4: "\<not> authenticateRequest proxy (withAuth ''Basic YWRtaW5wYXNzd29yZA=='' connectExample)" by code_simp
  have 5: "\<not> authenticateRequest proxy (withAuth ''Basic YWRtaW46d3Jvbmc='' getExample)" by code_simp
  have 6: "sent_status (writer (ServeHTTP proxy reachable (freshWriter None) (withAuth ''Basic YWRtaW46d3Jvbmc='' getExample)))
     = Some 407" by code_simp
  from denials_indistinguishable[OF 1 2, of unreachable "freshWriter None" reachable]
       denials_indistinguishable[OF 2 3, of reachable "freshWriter None" reachable]
       denials_indistinguishable[OF 3 4, of reachable "freshWriter None" unreachable]
       denials_indistinguishable[OF 4 5, of unreachable "freshWriter None" reachable]
       6
  show ?thesis by blast
qed

text \<open>
  C9. In the tunnel relay, for an authenticated request whose dial succeeds, status
  200 is written before the writer is asked whether it is an \<^verbatim>\<open>http.Hijacker\<close> and
  before \<^verbatim>\<open>Hijack\<close> is called. So the client receives status 200 in every case:
  when the takeover is not supported, when it fails and when it succeeds; in the first
  two cases the later \<^verbatim>\<open>http.Error\<close> with 500 only adds its text to the body.
\<close>

theorem established_before_takeover:
  assumes "authenticateRequest ps r" and "net_DialTimeout env ''tcp'' (Host r) 30 = None"
  shows "(let out = handleHTTPS ps env (freshWriter hj) r in
            (\<exists>rest. events out =
                EvDial ''tcp'' (Host r) 30 None # EvWriteHeader StatusOK # EvAssertHijacker # rest)
          \<and> before (EvWriteHeader StatusOK) EvAssertHijacker (events out)
          \<and> (\<forall>res. before (EvWriteHeader StatusOK) (EvHijack res) (events out))
          \<and> sent (writer out) = Some (StatusOK, Map.empty)
          \<and> (hj = None \<longrightarrow>
                written (writer out) = ''Hijacking not supported'' @ [CHR 0x0A]
              \<and> EvError ''Hijacking not supported'' StatusInternalServerError \<in> set (events out))
          \<and> (\<forall>e. hj = Some (Some e) \<longrightarrow>
                written (writer out) = ''Error hijacking connection'' @ [CHR 0x0A]
              \<and> EvError ''Error hijacking connection'' StatusInternalServerError \<in> set (events out))
          \<and> (hj = Some None \<longrightarrow> written (writer out) = [] \<and> EvHijack None \<in> set (events out))
          \<and> held [] (events out) = []
          \<and> \<not> panicked out)
       \<and> StatusOK = 200 \<and> StatusInternalServerError = 500"
  unfolding handleHTTPS_connected[OF assms] Let_def
  by (cases hj; simp add: StatusOK_def StatusInternalServerError_def split: option.splits)

theorem established_before_takeover_witness:
  "sent_status (writer (handleHTTPS proxy reachable (freshWriter (Some (Some HijackFailed)))
       (withAuth validAuth connectExample))) = Some 200
   \<and> written (writer (handleHTTPS proxy reachable (freshWriter (Some (Some HijackFailed)))
       (withAuth validAuth connectExample))) = ''Error hijacking connection'' @ [CHR 0x0A]
   \<and> before (EvWriteHeader 200) EvAssertHijacker
        (events (handleHTTPS proxy reachable (freshWriter (Some None))
           (withAuth validAuth connectExample)))"
proof -
  have 1: "authenticateRequest proxy (withAuth validAuth connectExample)" by code_simp
  have 2: "net_DialTimeout reachable ''tcp'' (Host (withAuth validAuth connectExample)) 30 = None"
    by code_simp
  have a: "sent (writer (handleHTTPS proxy reachable (freshWriter (Some (Some HijackFailed)))
       (withAuth validAuth connectExample))) = Some (StatusOK, Map.empty)
    \<and> written (writer (handleHTTPS proxy reachable (freshWriter (Some (Some HijackFailed)))
       (withAuth validAuth connectExample))) = ''Error hijacking connection'' @ [CHR 0x0A]"
    using established_before_takeover[OF 1 2, of "Some (Some HijackFailed)"]
    unfolding Let_def by blast
  have b: "before (EvWriteHeader StatusOK) EvAssertHijacker
        (events (handleHTTPS proxy reachable (freshWriter (Some None))
           (withAuth validAuth connectExample)))"
    using established_before_takeover[OF 1 2, of "Some None"]
    unfolding Let_def by blast
  from a b show ?thesis by (simp add: sent_status_def StatusOK_def)
qed

section \<open>Further properties\<close>

text \<open>
  Every connection a handler acquires (the body stream of an answer, the destination
  connection, the client connection it took over) is closed when the handler returns,
  on every path.
\<close>

lemma events_finish: "events (finish w res evs) = evs"
  by (simp add: finish_def split: option.splits)

lemma connections_released:
  "held [] (events (handleHTTP ps env w r)) = []
   \<and> held [] (events (handleHTTPS ps env w r)) = []
   \<and> held [] (events (ServeHTTP ps env w r)) = []"
proof -
  have 1: "held [] (events (handleHTTP ps env w r)) = []"
    by (simp add: handleHTTP_def Let_def events_finish
        split: sum.splits option.splits prod.splits)
  have 2: "held [] (events (handleHTTPS ps env w r)) = []"
    by (simp add: handleHTTPS_def Let_def events_finish
        split: sum.splits option.splits prod.splits)
  have 3: "held [] (events (ServeHTTP ps env w r)) = []"
    using 1 2 by (simp add: ServeHTTP_def Let_def)
  from 1 2 3 show ?thesis by simp
qed

text \<open>
  A configured username with a colon in it can never be presented: the payload is split
  at its first colon, so the username part of a payload is free of colons.
\<close>

lemma separator_in_username_locks_out:
  "CHR '':'' \<in> set (username ps) \<Longrightarrow> \<not> authenticateRequest ps r"
  unfolding authenticateRequest_cut cut_first_colon_Some by blast

end
